theory Spec2Isabelle
  imports Complex_Main "HOL-Library.Word"
begin

unbundle bit_operations_syntax

section \<open>Memory\<close>

text \<open>
  The kernel is built for a 32-bit little-endian machine (it is run under
  \<^verbatim>\<open>qemu-system-i386\<close> and casts pointers to \<^verbatim>\<open>uint32_t\<close>).
  A pointer is a 32-bit word, \<open>0\<close> is \<^verbatim>\<open>NULL\<close>, and the memory the
  callbacks and the collapse library work on is a flat array of bytes.  The
  fields of the register, of its qubits and of the module-level singletons
  are kept in records beside that memory.  Function pointers are code
  addresses; what the code behind an address does is given by an
  environment of callbacks.
\<close>

type_synonym addr = "32 word"
type_synonym fptr = "32 word"
type_synonym mem = "addr \<Rightarrow> 8 word"

text \<open>
  Modelled from the spec: \<^verbatim>\<open>memset\<close>, \<^verbatim>\<open>memcpy\<close> and \<^verbatim>\<open>memcmp\<close> come from
  \<^verbatim>\<open>core/memory.h\<close> and the C library, which are not part of the sources;
  they have their standard byte-for-byte meaning.  The address \<open>a\<close> lies in
  the block of \<open>n\<close> bytes at \<open>p\<close> when \<open>unat (a - p) < n\<close>.  \<open>memcpy\<close>
  reads every source byte from the memory before the copy.
\<close>

definition memset :: "addr \<Rightarrow> 8 word \<Rightarrow> nat \<Rightarrow> mem \<Rightarrow> mem" where
  "memset p v n m = (\<lambda>a. if unat (a - p) < n then v else m a)"

definition memcpy :: "addr \<Rightarrow> addr \<Rightarrow> nat \<Rightarrow> mem \<Rightarrow> mem" where
  "memcpy dst src n m = (\<lambda>a. if unat (a - dst) < n then m (src + (a - dst)) else m a)"

fun memcmp :: "mem \<Rightarrow> addr \<Rightarrow> addr \<Rightarrow> nat \<Rightarrow> int" where
  "memcmp m s1 s2 0 = 0"
| "memcmp m s1 s2 (Suc n) =
     (if m s1 = m s2 then memcmp m (s1 + 1) (s2 + 1) n
      else if m s1 < m s2 then - 1 else 1)"

text \<open>The bytes of a block, lowest address first.\<close>

fun read_bytes :: "mem \<Rightarrow> addr \<Rightarrow> nat \<Rightarrow> 8 word list" where
  "read_bytes m p 0 = []"
| "read_bytes m p (Suc n) = m p # read_bytes m (p + 1) n"

text \<open>
  \<^verbatim>\<open>*(void**)output = v\<close>: the four bytes of the pointer \<open>v\<close>, least
  significant first, are stored at \<open>p\<close>.
\<close>

definition pointer_bytes :: "addr \<Rightarrow> 8 word list" where
  "pointer_bytes v =
     [ucast v, ucast (drop_bit 8 v), ucast (drop_bit 16 v), ucast (drop_bit 24 v)]"

definition store_pointer :: "addr \<Rightarrow> addr \<Rightarrow> mem \<Rightarrow> mem" where
  "store_pointer p v m =
     (\<lambda>a. if unat (a - p) < 4 then ucast (drop_bit (8 * unat (a - p)) v) else m a)"

section \<open>Data model\<close>

datatype QARMA_COLLAPSE_STRATEGY =
    COLLAPSE_FIRST_WINS
  | COLLAPSE_LAST_WINS
  | COLLAPSE_BEST
  | COLLAPSE_VOTE
  | COLLAPSE_COMBINE
  | COLLAPSE_VALIDATE
  | COLLAPSE_CUSTOM
  | COLLAPSE_FUZZY
  | COLLAPSE_PROGRESSIVE
  | COLLAPSE_SPECULATIVE
  | COLLAPSE_MULTIDIM
  | COLLAPSE_TEMPORAL
  | COLLAPSE_ENSEMBLE





datatype QARMA_QUBIT_STATUS =
    QUBIT_STATUS_PENDING
  | QUBIT_STATUS_RUNNING
  | QUBIT_STATUS_COMPLETED
  | QUBIT_STATUS_FAILED
  | QUBIT_STATUS_SKIPPED

text \<open>
  \<^verbatim>\<open>struct QARMA_QUBIT\<close>.  Field names carry the prefix \<open>q_\<close>, since the
  register has fields of the same names.
\<close>

record QARMA_QUBIT =
  q_enabled :: bool
  q_status :: QARMA_QUBIT_STATUS
  q_function :: fptr
  q_data :: addr
  q_result :: addr
  q_result_size :: "32 word"
  q_start_time :: "64 word"
  q_end_time :: "64 word"
  q_assigned_core :: "32 word"
  q_id :: "32 word"
  q_userdata :: addr

datatype quantum_adaptive_policy_t =
    ADAPTIVE_POLICY_NONE
  | ADAPTIVE_POLICY_TIMEOUT
  | ADAPTIVE_POLICY_FAILURE_RATE
  | ADAPTIVE_POLICY_QUALITY
  | ADAPTIVE_POLICY_AGGRESSIVE

text \<open>
  Fields of type \<^verbatim>\<open>float\<close> are modelled as real numbers: the arithmetic on
  them is exact, the rounding of single precision is not modelled, and a
  literal such as \<^verbatim>\<open>0.3f\<close> stands for its decimal value.
\<close>

record quantum_adaptive_thresholds_t =
  th_timeout_ms :: "32 word"
  th_failure_threshold :: real
  th_quality_threshold :: real
  th_check_interval_ms :: "32 word"

record quantum_adaptive_state_t =
  ad_policy :: quantum_adaptive_policy_t
  ad_thresholds :: quantum_adaptive_thresholds_t
  ad_execution_start_time :: "32 word"
  ad_last_check_time :: "32 word"
  ad_switch_count :: "32 word"
  ad_original_strategy :: QARMA_COLLAPSE_STRATEGY
  ad_current_strategy :: QARMA_COLLAPSE_STRATEGY
  ad_has_switched :: bool
  ad_completed_at_last_check :: "32 word"
  ad_failed_at_last_check :: "32 word"
  ad_current_quality :: real

text \<open>
  \<^verbatim>\<open>struct QARMA_QUANTUM_REGISTER\<close>.  The qubit array is a list; its
  length is the field \<^verbatim>\<open>count\<close> (set once by create, equal to
  \<^verbatim>\<open>capacity\<close>, never changed).  \<^verbatim>\<open>adaptive_state\<close> is \<open>None\<close> for
  \<^verbatim>\<open>NULL\<close>.
\<close>

record QARMA_QUANTUM_REGISTER =
  r_qubits :: "QARMA_QUBIT list"
  r_strategy :: QARMA_COLLAPSE_STRATEGY
  r_custom_collapse :: fptr
  r_evaluate :: fptr
  r_combine :: fptr
  r_multidim :: addr
  r_temporal :: addr
  r_ensemble :: addr
  r_collapse_output :: addr
  r_result_size :: "32 word"
  r_collapsed :: bool
  r_completed_count :: "32 word"
  r_failed_count :: "32 word"
  r_wait_for_all :: bool
  r_total_execution_time :: "64 word"
  r_collapse_time :: "64 word"
  r_executing :: bool
  r_lock :: "32 word"
  r_adaptive_state :: "quantum_adaptive_state_t option"
  r_dispatched_count :: "32 word"

definition r_count :: "QARMA_QUANTUM_REGISTER \<Rightarrow> 32 word" where
  "r_count reg = of_nat (length (r_qubits reg))"

text \<open>
  The code behind the function pointers: a qubit function works on the
  memory through its data pointer; an evaluate function reads a result and
  returns an \<^verbatim>\<open>int\<close>; a combine or custom collapse function gets the
  result pointers and the output pointer.  The six scoring strategies of the
  collapse library (fuzzy, progressive, speculative, multidim, temporal,
  ensemble) write memory only; no property below depends on what they
  write, so they enter as one more callback, given the strategy, the result
  pointers and the register.
\<close>

record callbacks =
  cb_function :: "fptr \<Rightarrow> addr \<Rightarrow> mem \<Rightarrow> mem"
  cb_evaluate :: "fptr \<Rightarrow> addr \<Rightarrow> mem \<Rightarrow> 32 word"
  cb_collapse :: "fptr \<Rightarrow> addr list \<Rightarrow> addr \<Rightarrow> mem \<Rightarrow> mem"
  cb_library :: "QARMA_COLLAPSE_STRATEGY \<Rightarrow> addr list \<Rightarrow> QARMA_QUANTUM_REGISTER \<Rightarrow> mem \<Rightarrow> mem"

section \<open>Register: creation and configuration\<close>

text \<open>
  \<^verbatim>\<open>heap_alloc\<close> belongs to the core allocator, which is not part of
  the sources.  Each call site takes the outcome of its
  allocation as an argument: the address returned (\<open>0\<close> when the
  allocation fails), or just whether it succeeded where the address is not
  used by the model.
\<close>

definition zero_qubit :: QARMA_QUBIT where
  "zero_qubit =
     \<lparr> q_enabled = False, q_status = QUBIT_STATUS_PENDING, q_function = 0,
       q_data = 0, q_result = 0, q_result_size = 0, q_start_time = 0,
       q_end_time = 0, q_assigned_core = 0, q_id = 0, q_userdata = 0 \<rparr>"

text \<open>
  \<^verbatim>\<open>qarma_quantum_register_create\<close>: \<open>None\<close> is the \<^verbatim>\<open>NULL\<close>
  return.  \<open>reg_ok\<close> and \<open>qubits_ok\<close> say whether the two allocations
  succeed.
\<close>

definition qarma_quantum_register_create ::
  "bool \<Rightarrow> bool \<Rightarrow> 32 word \<Rightarrow> QARMA_QUANTUM_REGISTER option" where
  "qarma_quantum_register_create reg_ok qubits_ok qubit_count =
     (if qubit_count = 0 then None
      else if \<not> reg_ok then None
      else if \<not> qubits_ok then None
      else Some
        \<lparr> r_qubits =
            map (\<lambda>i. zero_qubit\<lparr> q_enabled := False, q_status := QUBIT_STATUS_PENDING,
                                   q_id := of_nat i \<rparr>) [0..<unat qubit_count],
          r_strategy = COLLAPSE_FIRST_WINS,
          r_custom_collapse = 0, r_evaluate = 0, r_combine = 0,
          r_multidim = 0, r_temporal = 0, r_ensemble = 0,
          r_collapse_output = 0, r_result_size = 0,
          r_collapsed = False,
          r_completed_count = 0, r_failed_count = 0,
          r_wait_for_all = True,
          r_total_execution_time = 0, r_collapse_time = 0,
          r_executing = False, r_lock = 0,
          r_adaptive_state = None, r_dispatched_count = 0 \<rparr>)"

definition qarma_quantum_register_reset :: "QARMA_QUANTUM_REGISTER \<Rightarrow> QARMA_QUANTUM_REGISTER" where
  "qarma_quantum_register_reset reg =
     reg\<lparr> r_completed_count := 0, r_failed_count := 0, r_collapsed := False,
          r_executing := False, r_total_execution_time := 0, r_collapse_time := 0,
          r_qubits :=
            map (\<lambda>q. q\<lparr> q_status := QUBIT_STATUS_PENDING, q_start_time := 0,
                          q_end_time := 0, q_assigned_core := 0 \<rparr>) (r_qubits reg) \<rparr>"

text \<open>
  \<^verbatim>\<open>qubit_allocate_result\<close>: \<open>p\<close> is what \<^verbatim>\<open>heap_alloc(size)\<close> returns; the pointer is stored in the qubit before it is tested.
\<close>

definition qubit_allocate_result ::
  "addr \<Rightarrow> QARMA_QUBIT \<Rightarrow> 32 word \<Rightarrow> mem \<Rightarrow> bool \<times> QARMA_QUBIT \<times> mem" where
  "qubit_allocate_result p qubit sz m =
     (if sz = 0 then (False, qubit, m)
      else if p = 0 then (False, qubit\<lparr> q_result := 0 \<rparr>, m)
      else (True, qubit\<lparr> q_result := p, q_result_size := sz \<rparr>,
            memset p 0 (unat sz) m))"

text \<open>
  \<^verbatim>\<open>qarma_qubit_init\<close>.  The function and data pointers, the enabled flag
  and the status are written before the result buffer is allocated.
\<close>

definition qarma_qubit_init ::
  "addr \<Rightarrow> QARMA_QUANTUM_REGISTER \<Rightarrow> 32 word \<Rightarrow> fptr \<Rightarrow> addr \<Rightarrow> 32 word \<Rightarrow> mem
     \<Rightarrow> bool \<times> QARMA_QUANTUM_REGISTER \<times> mem" where
  "qarma_qubit_init p reg index function data result_size m =
     (if r_count reg \<le> index \<or> function = 0 then (False, reg, m)
      else
        let qubit = (r_qubits reg ! unat index)
                      \<lparr> q_function := function, q_data := data, q_enabled := True,
                        q_status := QUBIT_STATUS_PENDING \<rparr>
        in if 0 < result_size then
             (case qubit_allocate_result p qubit result_size m of
                (ok, qubit', m') \<Rightarrow>
                  (ok, reg\<lparr> r_qubits := (r_qubits reg)[unat index := qubit'] \<rparr>, m'))
           else (True, reg\<lparr> r_qubits := (r_qubits reg)[unat index := qubit] \<rparr>, m))"

definition qarma_qubit_set_enabled ::
  "QARMA_QUANTUM_REGISTER \<Rightarrow> 32 word \<Rightarrow> bool \<Rightarrow> QARMA_QUANTUM_REGISTER" where
  "qarma_qubit_set_enabled reg index enabled =
     (if r_count reg \<le> index then reg
      else
        let q = (r_qubits reg ! unat index)\<lparr> q_enabled := enabled \<rparr>;
            q' = (if \<not> enabled then q\<lparr> q_status := QUBIT_STATUS_SKIPPED \<rparr> else q)
        in reg\<lparr> r_qubits := (r_qubits reg)[unat index := q'] \<rparr>)"

definition qarma_quantum_set_collapse ::
  "QARMA_QUANTUM_REGISTER \<Rightarrow> QARMA_COLLAPSE_STRATEGY \<Rightarrow> QARMA_QUANTUM_REGISTER" where
  "qarma_quantum_set_collapse reg strategy = reg\<lparr> r_strategy := strategy \<rparr>"

section \<open>Register: execution\<close>

text \<open>
  \<^verbatim>\<open>qubit_execute_wrapper\<close>, called with a context that was allocated and
  names the qubit and its register: it returns at once when the qubit has no
  function; otherwise it marks the qubit running, calls the function on the
  data pointer, marks the qubit completed and adds one to the register's
  \<^verbatim>\<open>completed_count\<close> (the first component of the pair threaded through).
\<close>

definition qubit_execute_wrapper ::
  "callbacks \<Rightarrow> QARMA_QUBIT \<Rightarrow> 32 word \<times> mem \<Rightarrow> QARMA_QUBIT \<times> 32 word \<times> mem" where
  "qubit_execute_wrapper cb qubit s =
     (case s of (completed, m) \<Rightarrow>
        if q_function qubit = 0 then (qubit, completed, m)
        else
          let q1 = qubit\<lparr> q_status := QUBIT_STATUS_RUNNING, q_start_time := 0 \<rparr>;
              m' = cb_function cb (q_function q1) (q_data q1) m;
              q2 = q1\<lparr> q_end_time := 0, q_status := QUBIT_STATUS_COMPLETED \<rparr>
          in (q2, completed + 1, m'))"

text \<open>
  The dispatch loop of \<^verbatim>\<open>qarma_quantum_execute\<close> over the qubit array,
  from index \<open>i\<close> on.  The state is \<^verbatim>\<open>completed_count\<close>,
  \<^verbatim>\<open>failed_count\<close>, the local \<^verbatim>\<open>dispatched\<close> and the memory.
  \<open>ctx_ok i\<close> says whether the allocation of the context of qubit \<open>i\<close>
  succeeds.
\<close>

fun dispatch_loop ::
  "callbacks \<Rightarrow> (nat \<Rightarrow> bool) \<Rightarrow> nat \<Rightarrow> QARMA_QUBIT list
     \<Rightarrow> 32 word \<times> 32 word \<times> 32 word \<times> mem
     \<Rightarrow> QARMA_QUBIT list \<times> 32 word \<times> 32 word \<times> 32 word \<times> mem" where
  "dispatch_loop cb ctx_ok i [] s = ([], s)"
| "dispatch_loop cb ctx_ok i (qubit # qs) (completed, failed, dispatched, m) =
     (if \<not> q_enabled qubit then
        (case dispatch_loop cb ctx_ok (Suc i) qs (completed, failed, dispatched, m) of
           (qs', s') \<Rightarrow> (qubit\<lparr> q_status := QUBIT_STATUS_SKIPPED \<rparr> # qs', s'))
      else if \<not> ctx_ok i then
        (case dispatch_loop cb ctx_ok (Suc i) qs (completed, failed + 1, dispatched, m) of
           (qs', s') \<Rightarrow> (qubit\<lparr> q_status := QUBIT_STATUS_FAILED \<rparr> # qs', s'))
      else
        (case qubit_execute_wrapper cb qubit (completed, m) of
           (qubit', completed', m') \<Rightarrow>
             (case dispatch_loop cb ctx_ok (Suc i) qs (completed', failed, dispatched + 1, m') of
                (qs', s') \<Rightarrow> (qubit' # qs', s'))))"

text \<open>
  \<^verbatim>\<open>qarma_quantum_execute\<close>.  The request to the core manager only
  decides which log line is written and is left out.
\<close>

definition qarma_quantum_execute ::
  "callbacks \<Rightarrow> (nat \<Rightarrow> bool) \<Rightarrow> QARMA_QUANTUM_REGISTER \<Rightarrow> mem
     \<Rightarrow> bool \<times> QARMA_QUANTUM_REGISTER \<times> mem" where
  "qarma_quantum_execute cb ctx_ok reg m =
     (if r_executing reg then (False, reg, m)
      else
        let reg1 = reg\<lparr> r_executing := True, r_collapsed := False,
                         r_completed_count := 0, r_failed_count := 0 \<rparr>
        in case dispatch_loop cb ctx_ok 0 (r_qubits reg1)
                  (r_completed_count reg1, r_failed_count reg1, 0, m) of
             (qs', completed, failed, dispatched, m') \<Rightarrow>
               (0 < dispatched,
                reg1\<lparr> r_qubits := qs', r_completed_count := completed,
                      r_failed_count := failed, r_executing := False \<rparr>,
                m'))"

definition enabled_count :: "QARMA_QUANTUM_REGISTER \<Rightarrow> 32 word" where
  "enabled_count reg = of_nat (length (filter q_enabled (r_qubits reg)))"

definition qarma_quantum_is_complete :: "QARMA_QUANTUM_REGISTER \<Rightarrow> bool" where
  "qarma_quantum_is_complete reg =
     (enabled_count reg \<le> r_completed_count reg + r_failed_count reg)"

definition qarma_quantum_execute_sync ::
  "callbacks \<Rightarrow> (nat \<Rightarrow> bool) \<Rightarrow> QARMA_QUANTUM_REGISTER \<Rightarrow> mem
     \<Rightarrow> bool \<times> QARMA_QUANTUM_REGISTER \<times> mem" where
  "qarma_quantum_execute_sync cb ctx_ok reg m =
     (case qarma_quantum_execute cb ctx_ok reg m of
        (ok, reg', m') \<Rightarrow>
          if \<not> ok then (False, reg', m') else (qarma_quantum_is_complete reg', reg', m'))"

text \<open>
  \<^verbatim>\<open>qarma_quantum_wait\<close>: the loop
  \<^verbatim>\<open>while (!qarma_quantum_is_complete(reg)) { }\<close> followed by
  \<^verbatim>\<open>return true\<close>.  The timeout is not read.  Qubits run inside
  \<^verbatim>\<open>qarma_quantum_execute\<close>, so nothing changes the register while the
  loop polls it.  \<open>None\<close> is the call that does not return.
\<close>

partial_function (option) qarma_quantum_wait ::
  "QARMA_QUANTUM_REGISTER \<Rightarrow> 32 word \<Rightarrow> bool option" where
  "qarma_quantum_wait reg timeout_ms =
     (if \<not> qarma_quantum_is_complete reg then qarma_quantum_wait reg timeout_ms
      else Some True)"

section \<open>Collapse\<close>

text \<open>
  The built-in strategies get the array of result pointers (a list; the
  count is its length) and the output pointer.
\<close>

definition qarma_collapse_first_wins :: "addr list \<Rightarrow> addr \<Rightarrow> mem \<Rightarrow> mem" where
  "qarma_collapse_first_wins results output m =
     (if length results = 0 \<or> output = 0 then m
      else store_pointer output (results ! 0) m)"

definition qarma_collapse_last_wins :: "addr list \<Rightarrow> addr \<Rightarrow> mem \<Rightarrow> mem" where
  "qarma_collapse_last_wins results output m =
     (if length results = 0 \<or> output = 0 then m
      else store_pointer output (results ! (length results - 1)) m)"

text \<open>
  The comparison loop of \<^verbatim>\<open>qarma_collapse_validate\<close> over
  \<^verbatim>\<open>results[1..]\<close>: \<open>False\<close> is the early return at the first mismatch.
\<close>

fun validate_loop :: "mem \<Rightarrow> addr \<Rightarrow> addr list \<Rightarrow> nat \<Rightarrow> bool" where
  "validate_loop m r0 [] n = True"
| "validate_loop m r0 (r # rs) n =
     (if memcmp m r0 r n \<noteq> 0 then False else validate_loop m r0 rs n)"

definition qarma_collapse_validate :: "addr list \<Rightarrow> addr \<Rightarrow> 32 word \<Rightarrow> mem \<Rightarrow> mem" where
  "qarma_collapse_validate results output sz m =
     (if length results = 0 \<or> output = 0 \<or> sz = 0 then m
      else if \<not> validate_loop m (results ! 0) (tl results) (unat sz) then m
      else memcpy output (results ! 0) (unat sz) m)"

text \<open>
  The scan of \<^verbatim>\<open>COLLAPSE_BEST\<close> over \<^verbatim>\<open>results[i..]\<close>; scores are
  \<^verbatim>\<open>int\<close> and compared as signed numbers.
\<close>

fun best_loop ::
  "(addr \<Rightarrow> 32 word) \<Rightarrow> addr list \<Rightarrow> nat \<Rightarrow> nat \<Rightarrow> 32 word \<Rightarrow> nat" where
  "best_loop ev [] i best_idx best_score = best_idx"
| "best_loop ev (r # rs) i best_idx best_score =
     (let score = ev r
      in if sint best_score < sint score then best_loop ev rs (Suc i) i score
         else best_loop ev rs (Suc i) best_idx best_score)"

text \<open>The \<^verbatim>\<open>switch\<close> of \<^verbatim>\<open>qarma_quantum_collapse\<close>.\<close>

definition apply_strategy ::
  "callbacks \<Rightarrow> QARMA_QUANTUM_REGISTER \<Rightarrow> addr list \<Rightarrow> mem \<Rightarrow> mem" where
  "apply_strategy cb reg results m =
     (let result_count = length results in
      case r_strategy reg of
        COLLAPSE_FIRST_WINS \<Rightarrow>
          if 0 < result_count then qarma_collapse_first_wins results (r_collapse_output reg) m
          else m
      | COLLAPSE_LAST_WINS \<Rightarrow>
          if 0 < result_count then qarma_collapse_last_wins results (r_collapse_output reg) m
          else m
      | COLLAPSE_BEST \<Rightarrow>
          if 0 < result_count \<and> r_evaluate reg \<noteq> 0 then
            let ev = (\<lambda>r. cb_evaluate cb (r_evaluate reg) r m);
                best_idx = best_loop ev (tl results) 1 0 (ev (results ! 0))
            in if r_collapse_output reg \<noteq> 0 \<and> 0 < r_result_size reg
               then memcpy (r_collapse_output reg) (results ! best_idx)
                      (unat (r_result_size reg)) m
               else m
          else m
      | COLLAPSE_VOTE \<Rightarrow> m
      | COLLAPSE_COMBINE \<Rightarrow>
          if 0 < result_count \<and> r_combine reg \<noteq> 0
          then cb_collapse cb (r_combine reg) results (r_collapse_output reg) m
          else m
      | COLLAPSE_VALIDATE \<Rightarrow>
          if 0 < result_count \<and> 0 < r_result_size reg
          then qarma_collapse_validate results (r_collapse_output reg) (r_result_size reg) m
          else m
      | COLLAPSE_CUSTOM \<Rightarrow>
          if 0 < result_count \<and> r_custom_collapse reg \<noteq> 0
          then cb_collapse cb (r_custom_collapse reg) results (r_collapse_output reg) m
          else m
      | COLLAPSE_FUZZY \<Rightarrow>
          if 0 < result_count \<and> r_evaluate reg \<noteq> 0
          then cb_library cb COLLAPSE_FUZZY results reg m else m
      | COLLAPSE_PROGRESSIVE \<Rightarrow>
          if 0 < result_count
          then cb_library cb COLLAPSE_PROGRESSIVE results reg m else m
      | COLLAPSE_SPECULATIVE \<Rightarrow>
          if 0 < result_count \<and> r_evaluate reg \<noteq> 0
          then cb_library cb COLLAPSE_SPECULATIVE results reg m else m
      | COLLAPSE_MULTIDIM \<Rightarrow>
          if 0 < result_count \<and> r_multidim reg \<noteq> 0
          then cb_library cb COLLAPSE_MULTIDIM results reg m else m
      | COLLAPSE_TEMPORAL \<Rightarrow>
          if 0 < result_count \<and> r_temporal reg \<noteq> 0
          then cb_library cb COLLAPSE_TEMPORAL results reg m else m
      | COLLAPSE_ENSEMBLE \<Rightarrow>
          if 0 < result_count \<and> r_ensemble reg \<noteq> 0
          then cb_library cb COLLAPSE_ENSEMBLE results reg m else m)"

text \<open>
  The gathering loop: the data pointers of the completed qubits, in array
  order, null pointers left out.
\<close>

definition gather_results :: "QARMA_QUBIT list \<Rightarrow> addr list" where
  "gather_results qs =
     map q_data (filter (\<lambda>q. q_status q = QUBIT_STATUS_COMPLETED \<and> q_data q \<noteq> 0) qs)"

text \<open>
  \<^verbatim>\<open>qarma_quantum_collapse\<close> returns the pointer, the register and the
  memory.  \<open>results_ok\<close> says whether the array of result pointers can be
  allocated; \<open>out\<close> is what \<^verbatim>\<open>heap_alloc(reg->result_size)\<close> returns when
  the output buffer has to be allocated.
\<close>

definition qarma_quantum_collapse ::
  "callbacks \<Rightarrow> bool \<Rightarrow> addr \<Rightarrow> QARMA_QUANTUM_REGISTER \<Rightarrow> mem
     \<Rightarrow> addr \<times> QARMA_QUANTUM_REGISTER \<times> mem" where
  "qarma_quantum_collapse cb results_ok out reg m =
     (if r_collapsed reg then (r_collapse_output reg, reg, m)
      else if \<not> results_ok then (0, reg, m)
      else
        let results = gather_results (r_qubits reg)
        in if r_collapse_output reg = 0 \<and> 0 < r_result_size reg then
             (let reg1 = reg\<lparr> r_collapse_output := out \<rparr>
              in if out = 0 then (0, reg1, m)
                 else
                   let m1 = memset out 0 (unat (r_result_size reg1)) m;
                       m2 = apply_strategy cb reg1 results m1
                   in (r_collapse_output reg1, reg1\<lparr> r_collapsed := True \<rparr>, m2))
           else
             (let m2 = apply_strategy cb reg results m
              in (r_collapse_output reg, reg\<lparr> r_collapsed := True \<rparr>, m2)))"

section \<open>AI observer\<close>

record quantum_workload_profile_t =
  wp_qubit_count :: "32 word"
  wp_avg_execution_time :: "32 word"
  wp_variance :: "32 word"
  wp_has_evaluation :: bool
  wp_requires_all :: bool
  wp_data_size :: "32 word"

record strategy_metrics_t =
  sm_total_uses :: "32 word"
  sm_success_count :: "32 word"
  sm_total_time :: "32 word"
  sm_avg_quality :: real
  sm_last_used :: "32 word"

text \<open>
  The array \<^verbatim>\<open>metrics[COLLAPSE_STRATEGY_COUNT]\<close> is indexed by the
  strategy.
\<close>

record quantum_learning_entry_t =
  le_profile :: quantum_workload_profile_t
  le_metrics :: "QARMA_COLLAPSE_STRATEGY \<Rightarrow> strategy_metrics_t"
  le_observation_count :: "32 word"
  le_confidence :: real

text \<open>
  The singleton \<^verbatim>\<open>g_observer\<close>.  \<open>ob_learning_db\<close> holds the
  \<^verbatim>\<open>db_size\<close> entries in use.
\<close>

record quantum_ai_observer_t =
  ob_learning_db :: "quantum_learning_entry_t list"
  ob_db_capacity :: "32 word"
  ob_enabled :: bool
  ob_total_observations :: "32 word"

definition ob_db_size :: "quantum_ai_observer_t \<Rightarrow> 32 word" where
  "ob_db_size ob = of_nat (length (ob_learning_db ob))"

definition INITIAL_DB_CAPACITY :: "32 word" where
  "INITIAL_DB_CAPACITY = 32"

definition PROFILE_MATCH_THRESHOLD :: real where
  "PROFILE_MATCH_THRESHOLD = 8 / 10"

definition profile_similarity ::
  "quantum_workload_profile_t \<Rightarrow> quantum_workload_profile_t \<Rightarrow> real" where
  "profile_similarity a b =
     (let qubit_diff = real (unat (if wp_qubit_count b < wp_qubit_count a
                                   then wp_qubit_count a - wp_qubit_count b
                                   else wp_qubit_count b - wp_qubit_count a));
          qubit_sim = (if qubit_diff < 10 then 1 - qubit_diff / 10 else 0);
          similarity0 = qubit_sim * (3 / 10);
          weight0 = 3 / 10;
          (similarity1, weight1) =
            (if 0 < wp_avg_execution_time a \<and> 0 < wp_avg_execution_time b then
               let time_ratio = real (unat (wp_avg_execution_time a))
                                  / real (unat (wp_avg_execution_time b));
                   time_ratio' = (if 1 < time_ratio then 1 / time_ratio else time_ratio)
               in (similarity0 + time_ratio' * (25 / 100), weight0 + 25 / 100)
             else (similarity0, weight0));
          (similarity2, weight2) =
            (if wp_has_evaluation a = wp_has_evaluation b
             then (similarity1 + 15 / 100, weight1 + 15 / 100)
             else (similarity1, weight1));
          (similarity3, weight3) =
            (if wp_requires_all a = wp_requires_all b
             then (similarity2 + 15 / 100, weight2 + 15 / 100)
             else (similarity2, weight2));
          (similarity4, weight4) =
            (if 0 < wp_data_size a \<and> 0 < wp_data_size b then
               let size_ratio = real (unat (wp_data_size a)) / real (unat (wp_data_size b));
                   size_ratio' = (if 1 < size_ratio then 1 / size_ratio else size_ratio)
               in (similarity3 + size_ratio' * (15 / 100), weight3 + 15 / 100)
             else (similarity3, weight3))
      in if 0 < weight4 then similarity4 / weight4 else 0)"

text \<open>
  The scan for the best matching entry, shared by
  \<^verbatim>\<open>find_or_create_entry\<close> and \<^verbatim>\<open>quantum_ai_recommend_strategy\<close>:
  the index of the best match so far (\<open>None\<close> for \<^verbatim>\<open>NULL\<close>) and its
  similarity.
\<close>

fun best_match_loop ::
  "quantum_workload_profile_t \<Rightarrow> quantum_learning_entry_t list \<Rightarrow> nat
     \<Rightarrow> nat option \<times> real \<Rightarrow> nat option \<times> real" where
  "best_match_loop profile [] i best = best"
| "best_match_loop profile (e # es) i (best_match, best_similarity) =
     (let sim = profile_similarity profile (le_profile e)
      in if best_similarity < sim then best_match_loop profile es (Suc i) (Some i, sim)
         else best_match_loop profile es (Suc i) (best_match, best_similarity))"

definition zero_metrics :: strategy_metrics_t where
  "zero_metrics =
     \<lparr> sm_total_uses = 0, sm_success_count = 0, sm_total_time = 0,
       sm_avg_quality = 0, sm_last_used = 0 \<rparr>"

text \<open>
  \<^verbatim>\<open>find_or_create_entry\<close> returns the index of the entry (\<open>None\<close> for
  \<^verbatim>\<open>NULL\<close>).  \<open>db_ok\<close> says whether the allocation of a larger database
  succeeds.
\<close>

definition find_or_create_entry ::
  "bool \<Rightarrow> quantum_ai_observer_t \<Rightarrow> quantum_workload_profile_t
     \<Rightarrow> nat option \<times> quantum_ai_observer_t" where
  "find_or_create_entry db_ok ob profile =
     (case best_match_loop profile (ob_learning_db ob) 0 (None, 0) of
        (best_match, best_similarity) \<Rightarrow>
          if best_match \<noteq> None \<and> PROFILE_MATCH_THRESHOLD \<le> best_similarity
          then (best_match, ob)
          else if ob_db_capacity ob \<le> ob_db_size ob \<and> \<not> db_ok then (None, ob)
          else
            let ob1 = (if ob_db_capacity ob \<le> ob_db_size ob
                       then ob\<lparr> ob_db_capacity :=
                                  (if ob_db_capacity ob = 0 then INITIAL_DB_CAPACITY
                                   else ob_db_capacity ob * 2) \<rparr>
                       else ob);
                entry = \<lparr> le_profile = profile, le_metrics = (\<lambda>s. zero_metrics),
                          le_observation_count = 0, le_confidence = 0 \<rparr>
            in (Some (length (ob_learning_db ob1)),
                ob1\<lparr> ob_learning_db := ob_learning_db ob1 @ [entry] \<rparr>))"

definition quantum_ai_init :: quantum_ai_observer_t where
  "quantum_ai_init =
     \<lparr> ob_learning_db = [], ob_db_capacity = 0, ob_enabled = True,
       ob_total_observations = 0 \<rparr>"

text \<open>
  \<^verbatim>\<open>quantum_ai_profile_register\<close>.  A duration is the 64-bit difference
  of the two time stamps cut to 32 bits.
\<close>

definition qubit_duration :: "QARMA_QUBIT \<Rightarrow> 32 word" where
  "qubit_duration q = ucast (q_end_time q - q_start_time q)"

definition quantum_ai_profile_register ::
  "QARMA_QUANTUM_REGISTER \<Rightarrow> quantum_workload_profile_t" where
  "quantum_ai_profile_register reg =
     (let done = filter (\<lambda>q. q_status q = QUBIT_STATUS_COMPLETED) (r_qubits reg);
          total_time = sum_list (map qubit_duration done);
          completed = (of_nat (length done) :: 32 word);
          profile = \<lparr> wp_qubit_count = r_count reg, wp_avg_execution_time = 0,
                      wp_variance = 0,
                      wp_has_evaluation = (r_evaluate reg \<noteq> 0),
                      wp_requires_all = r_wait_for_all reg,
                      wp_data_size = 0 \<rparr>
      in if 0 < completed then
           let avg = total_time div completed;
               variance_sum =
                 sum_list (map (\<lambda>q. (qubit_duration q - avg) * (qubit_duration q - avg)) done)
           in profile\<lparr> wp_avg_execution_time := avg,
                        wp_variance := variance_sum div completed \<rparr>
         else profile)"

text \<open>
  \<^verbatim>\<open>quantum_ai_observe_complete\<close>.  Every value of the strategy type is
  below \<^verbatim>\<open>COLLAPSE_STRATEGY_COUNT\<close>, so the metrics of the strategy in
  use are always updated.
\<close>

definition quantum_ai_observe_complete ::
  "bool \<Rightarrow> quantum_ai_observer_t \<Rightarrow> QARMA_QUANTUM_REGISTER \<Rightarrow> 32 word \<Rightarrow> real
     \<Rightarrow> quantum_ai_observer_t" where
  "quantum_ai_observe_complete db_ok ob reg elapsed_ms quality =
     (if \<not> ob_enabled ob then ob
      else
        let profile = quantum_ai_profile_register reg
        in case find_or_create_entry db_ok ob profile of
             (None, ob1) \<Rightarrow> ob1
           | (Some i, ob1) \<Rightarrow>
               let entry = ob_learning_db ob1 ! i;
                   metrics = le_metrics entry (r_strategy reg);
                   alpha = 3 / 10;
                   metrics' = metrics
                     \<lparr> sm_total_uses := sm_total_uses metrics + 1,
                       sm_success_count :=
                         (if r_collapsed reg then sm_success_count metrics + 1
                          else sm_success_count metrics),
                       sm_total_time := sm_total_time metrics + elapsed_ms,
                       sm_avg_quality :=
                         sm_avg_quality metrics * (1 - alpha) + quality * alpha,
                       sm_last_used := ob_total_observations ob1 \<rparr>;
                   n = le_observation_count entry + 1;
                   entry' = entry
                     \<lparr> le_metrics := (le_metrics entry)(r_strategy reg := metrics'),
                       le_observation_count := n,
                       le_confidence :=
                         (if 10 \<le> n then 1 - 1 / real (unat n) else real (unat n) / 10) \<rparr>
               in ob1\<lparr> ob_learning_db := (ob_learning_db ob1)[i := entry'],
                        ob_total_observations := ob_total_observations ob1 + 1 \<rparr>)"



section \<open>Adaptive controller\<close>



definition quantum_adaptive_set_thresholds ::
  "QARMA_QUANTUM_REGISTER \<Rightarrow> quantum_adaptive_thresholds_t \<Rightarrow> QARMA_QUANTUM_REGISTER" where
  "quantum_adaptive_set_thresholds reg thresholds =
     (case r_adaptive_state reg of
        None \<Rightarrow> reg
      | Some state \<Rightarrow> reg\<lparr> r_adaptive_state := Some (state\<lparr> ad_thresholds := thresholds \<rparr>) \<rparr>)"





section \<open>Predictive scheduler\<close>

datatype quantum_schedule_strategy_t =
    SCHEDULE_SEQUENTIAL
  | SCHEDULE_RANDOM
  | SCHEDULE_LONGEST_FIRST
  | SCHEDULE_SHORTEST_FIRST
  | SCHEDULE_BALANCED
  | SCHEDULE_AI_PREDICTED

record qubit_prediction_t =
  pr_qubit_index :: "32 word"
  pr_predicted_time_ms :: "32 word"
  pr_confidence :: real
  pr_complexity_score :: "32 word"

record learned_pattern_t =
  lp_data_size :: "32 word"
  lp_avg_time_ms :: "32 word"
  lp_sample_count :: "32 word"

text \<open>
  The singleton \<^verbatim>\<open>g_scheduler\<close>.  \<open>sc_predictions\<close> is \<open>None\<close> for
  \<^verbatim>\<open>NULL\<close>; \<open>sc_learned_patterns\<close> holds the \<^verbatim>\<open>pattern_count\<close>
  entries of the table that are in use.
\<close>

record quantum_scheduler_t =
  sc_strategy :: quantum_schedule_strategy_t
  sc_predictions :: "qubit_prediction_t list option"
  sc_prediction_count :: "32 word"
  sc_learned_patterns :: "learned_pattern_t list"
  sc_total_scheduled :: "32 word"
  sc_predictions_accurate :: "32 word"
  sc_avg_prediction_error :: real

definition estimate_complexity :: "32 word \<Rightarrow> 32 word" where
  "estimate_complexity data_size = data_size * 10"

fun lookup_learned_time :: "learned_pattern_t list \<Rightarrow> 32 word \<Rightarrow> 32 word" where
  "lookup_learned_time [] data_size = 0"
| "lookup_learned_time (p # ps) data_size =
     (if lp_data_size p = data_size then lp_avg_time_ms p
      else lookup_learned_time ps data_size)"

text \<open>The body of the prediction loop for qubit \<open>i\<close>.\<close>

definition predict_qubit ::
  "learned_pattern_t list \<Rightarrow> nat \<Rightarrow> QARMA_QUBIT \<Rightarrow> qubit_prediction_t" where
  "predict_qubit patterns i qubit =
     (let pred = \<lparr> pr_qubit_index = of_nat i, pr_predicted_time_ms = 0,
                   pr_confidence = 5 / 10,
                   pr_complexity_score = estimate_complexity (q_result_size qubit) \<rparr>;
          learned_time = lookup_learned_time patterns (q_result_size qubit)
      in if 0 < learned_time then
           pred\<lparr> pr_predicted_time_ms := learned_time, pr_confidence := 8 / 10 \<rparr>
         else
           let t = pr_complexity_score pred div 100
           in pred\<lparr> pr_predicted_time_ms := (if t < 1 then 1 else t),
                    pr_confidence := 3 / 10 \<rparr>)"

text \<open>
  \<^verbatim>\<open>quantum_scheduler_predict\<close>.  \<open>pred_ok\<close> says whether the prediction
  array can be allocated; the old array is freed and the pointer overwritten
  in either case.
\<close>

definition quantum_scheduler_predict ::
  "bool \<Rightarrow> quantum_scheduler_t \<Rightarrow> QARMA_QUANTUM_REGISTER \<Rightarrow> quantum_scheduler_t" where
  "quantum_scheduler_predict pred_ok sched reg =
     (if \<not> pred_ok then sched\<lparr> sc_predictions := None \<rparr>
      else
        sched\<lparr> sc_predictions := Some
                 (map (\<lambda>(i, qubit). predict_qubit (sc_learned_patterns sched) i qubit)
                    (zip [0..<length (r_qubits reg)] (r_qubits reg))),
               sc_prediction_count := r_count reg,
               sc_total_scheduled := sc_total_scheduled sched + r_count reg \<rparr>)"

definition quantum_scheduler_get_prediction ::
  "quantum_scheduler_t \<Rightarrow> 32 word \<Rightarrow> qubit_prediction_t option" where
  "quantum_scheduler_get_prediction sched index =
     (case sc_predictions sched of
        None \<Rightarrow> None
      | Some preds \<Rightarrow>
          if sc_prediction_count sched \<le> index then None else Some (preds ! unat index))"

section \<open>Auxiliary notions for the properties\<close>

text \<open>
  The number of qubits the dispatch loop hands to the wrapper: the enabled
  ones whose context could be allocated.
\<close>

fun count_dispatched :: "(nat \<Rightarrow> bool) \<Rightarrow> nat \<Rightarrow> QARMA_QUBIT list \<Rightarrow> nat" where
  "count_dispatched ctx_ok i [] = 0"
| "count_dispatched ctx_ok i (q # qs) =
     (if q_enabled q \<and> ctx_ok i then 1 else 0) + count_dispatched ctx_ok (Suc i) qs"

text \<open>
  Inputs for the concrete runs below: callbacks that leave the memory alone
  and score every result 0, a memory holding the bytes 1, 2, 3, 4 at address
  \<open>0x1000\<close> and zero elsewhere, and a register of two qubits as
  \<^verbatim>\<open>qarma_quantum_register_create(2)\<close> leaves it.
\<close>

definition idle_callbacks :: callbacks where
  "idle_callbacks =
     \<lparr> cb_function = (\<lambda>f d m. m), cb_evaluate = (\<lambda>f r m. 0),
       cb_collapse = (\<lambda>f rs out m. m), cb_library = (\<lambda>s rs reg m. m) \<rparr>"

definition sample_memory :: mem where
  "sample_memory = (\<lambda>a. 0)(0x1000 := 1, 0x1001 := 2, 0x1002 := 3, 0x1003 := 4)"

definition fresh_register :: QARMA_QUANTUM_REGISTER where
  "fresh_register =
     \<lparr> r_qubits = [zero_qubit, zero_qubit\<lparr> q_id := 1 \<rparr>],
       r_strategy = COLLAPSE_FIRST_WINS,
       r_custom_collapse = 0, r_evaluate = 0, r_combine = 0,
       r_multidim = 0, r_temporal = 0, r_ensemble = 0,
       r_collapse_output = 0, r_result_size = 0,
       r_collapsed = False,
       r_completed_count = 0, r_failed_count = 0,
       r_wait_for_all = True,
       r_total_execution_time = 0, r_collapse_time = 0,
       r_executing = False, r_lock = 0,
       r_adaptive_state = None, r_dispatched_count = 0 \<rparr>"

text \<open>
  The same register after \<^verbatim>\<open>qarma_qubit_init(reg, 0, f, 0x1000, 0)\<close> with
  a function at address \<open>0x400\<close>.
\<close>

definition configured_register :: QARMA_QUANTUM_REGISTER where
  "configured_register =
     fst (snd (qarma_qubit_init 0 fresh_register 0 0x400 0x1000 0 sample_memory))"

text \<open>
  The configured register with \<^verbatim>\<open>result_size\<close> set to 4 (the examples
  assign the field directly) after \<^verbatim>\<open>qarma_quantum_execute\<close>, and the
  collapse of that register under its strategy \<^verbatim>\<open>COLLAPSE_FIRST_WINS\<close>,
  the output buffer being allocated at \<open>0x2000\<close>.
\<close>

definition executed_register :: QARMA_QUANTUM_REGISTER where
  "executed_register =
     fst (snd (qarma_quantum_execute idle_callbacks (\<lambda>i. True)
                 (configured_register\<lparr> r_result_size := 4 \<rparr>) sample_memory))"

definition first_wins_run :: "addr \<times> QARMA_QUANTUM_REGISTER \<times> mem" where
  "first_wins_run =
     qarma_quantum_collapse idle_callbacks True 0x2000 executed_register sample_memory"

text \<open>
  The scheduler singleton as its static initialiser leaves it, and the new
  register after \<^verbatim>\<open>qarma_qubit_init(reg, 0, f, 0x1000, 8)\<close> with the
  result buffer allocated at \<open>0x3000\<close>.
\<close>

definition initial_scheduler :: quantum_scheduler_t where
  "initial_scheduler =
     \<lparr> sc_strategy = SCHEDULE_AI_PREDICTED, sc_predictions = None, sc_prediction_count = 0,
       sc_learned_patterns = [], sc_total_scheduled = 0, sc_predictions_accurate = 0,
       sc_avg_prediction_error = 0 \<rparr>"

definition sized_register :: QARMA_QUANTUM_REGISTER where
  "sized_register =
     fst (snd (qarma_qubit_init 0x3000 fresh_register 0 0x400 0x1000 8 sample_memory))"

text \<open>
  The observer after \<open>n\<close> calls of \<^verbatim>\<open>quantum_ai_observe_complete\<close> on
  the executed register, starting from \<^verbatim>\<open>quantum_ai_init\<close>; the workload
  profile of that register; and the confidence the source assigns at
  observation count \<open>n\<close>.
\<close>

primrec observe_times :: "nat \<Rightarrow> quantum_ai_observer_t" where
  "observe_times 0 = quantum_ai_init"
| "observe_times (Suc n) =
     quantum_ai_observe_complete True (observe_times n) executed_register 5 1"

definition executed_profile :: quantum_workload_profile_t where
  "executed_profile =
     \<lparr> wp_qubit_count = 2, wp_avg_execution_time = 0, wp_variance = 0,
       wp_has_evaluation = False, wp_requires_all = True, wp_data_size = 0 \<rparr>"

definition confidence_ramp :: "32 word \<Rightarrow> real" where
  "confidence_ramp n = (if 10 \<le> n then 1 - 1 / real (unat n) else real (unat n) / 10)"





text \<open>
  The public operations on a register other than reset, each with the
  outcomes of its allocations, and a run of a list of them.
\<close>

datatype register_op =
    Init_qubit addr "32 word" fptr addr "32 word"
  | Set_enabled "32 word" bool
  | Execute "nat \<Rightarrow> bool"
  | Collapse bool addr

fun apply_op ::
  "callbacks \<Rightarrow> register_op \<Rightarrow> QARMA_QUANTUM_REGISTER \<times> mem \<Rightarrow> QARMA_QUANTUM_REGISTER \<times> mem" where
  "apply_op cb (Init_qubit p index function data result_size) (reg, m) =
     snd (qarma_qubit_init p reg index function data result_size m)"
| "apply_op cb (Set_enabled index enabled) (reg, m) =
     (qarma_qubit_set_enabled reg index enabled, m)"
| "apply_op cb (Execute ctx_ok) (reg, m) = snd (qarma_quantum_execute cb ctx_ok reg m)"
| "apply_op cb (Collapse results_ok out) (reg, m) =
     snd (qarma_quantum_collapse cb results_ok out reg m)"

fun run_ops ::
  "callbacks \<Rightarrow> register_op list \<Rightarrow> QARMA_QUANTUM_REGISTER \<times> mem
     \<Rightarrow> QARMA_QUANTUM_REGISTER \<times> mem" where
  "run_ops cb [] s = s"
| "run_ops cb (op # ops) s = run_ops cb ops (apply_op cb op s)"

text \<open>
  \<open>status_forward s s'\<close>: the status \<open>s'\<close> is \<open>s\<close> or lies ahead of it
  along pending, running, completed or failed, or along pending, skipped.
\<close>

fun status_forward :: "QARMA_QUBIT_STATUS \<Rightarrow> QARMA_QUBIT_STATUS \<Rightarrow> bool" where
  "status_forward s s' =
     (s = s' \<or> s = QUBIT_STATUS_PENDING
      \<or> (s = QUBIT_STATUS_RUNNING
          \<and> (s' = QUBIT_STATUS_COMPLETED \<or> s' = QUBIT_STATUS_FAILED)))"

definition qubit_status :: "QARMA_QUANTUM_REGISTER \<times> mem \<Rightarrow> nat \<Rightarrow> QARMA_QUBIT_STATUS" where
  "qubit_status s i = q_status (r_qubits (fst s) ! i)"

text \<open>
  An operation meets its qubits in the status it expects: init on a pending
  qubit, disabling on a pending or skipped qubit, execute on a register
  whose qubits are all pending, or disabled and skipped.
\<close>

fun op_on_pending :: "register_op \<Rightarrow> QARMA_QUANTUM_REGISTER \<Rightarrow> bool" where
  "op_on_pending (Init_qubit p index function data result_size) reg =
     (unat index < length (r_qubits reg) \<longrightarrow>
        q_status (r_qubits reg ! unat index) = QUBIT_STATUS_PENDING)"
| "op_on_pending (Set_enabled index enabled) reg =
     (\<not> enabled \<and> unat index < length (r_qubits reg) \<longrightarrow>
        q_status (r_qubits reg ! unat index) = QUBIT_STATUS_PENDING
        \<or> q_status (r_qubits reg ! unat index) = QUBIT_STATUS_SKIPPED)"
| "op_on_pending (Execute ctx_ok) reg =
     (\<forall>q\<in>set (r_qubits reg).
        q_status q = QUBIT_STATUS_PENDING
        \<or> (\<not> q_enabled q \<and> q_status q = QUBIT_STATUS_SKIPPED))"
| "op_on_pending (Collapse results_ok out) reg = True"

fun ops_on_pending ::
  "callbacks \<Rightarrow> register_op list \<Rightarrow> QARMA_QUANTUM_REGISTER \<times> mem \<Rightarrow> bool" where
  "ops_on_pending cb [] s = True"
| "ops_on_pending cb (op # ops) s =
     (op_on_pending op (fst s) \<and> ops_on_pending cb ops (apply_op cb op s))"

text \<open>A run: configure qubit 0, disable qubit 1, execute, collapse.\<close>

definition sample_ops :: "register_op list" where
  "sample_ops =
     [Init_qubit 0 0 0x400 0x1000 0, Set_enabled 1 False, Execute (\<lambda>i. True),
      Collapse True 0x2000]"

section \<open>Verified properties\<close>

subsection \<open>Execution\<close>

lemma dispatch_loop_dispatched:
  "dispatch_loop cb ok i qs (c, f, d, m) = (qs', c', f', d', m') \<Longrightarrow>
     d' = d + of_nat (count_dispatched ok i qs)"
proof (induction qs arbitrary: i c f d m qs' c' f' d' m')
  case Nil
  then show ?case by simp
next
  case (Cons q qs)
  show ?case
  proof (cases "q_enabled q")
    case False
    with Cons.prems obtain qs2 where
      "dispatch_loop cb ok (Suc i) qs (c, f, d, m) = (qs2, c', f', d', m')"
      by (auto split: prod.splits)
    from Cons.IH[OF this] False show ?thesis by simp
  next
    case en: True
    show ?thesis
    proof (cases "ok i")
      case False
      with en Cons.prems obtain qs2 where
        "dispatch_loop cb ok (Suc i) qs (c, f + 1, d, m) = (qs2, c', f', d', m')"
        by (auto split: prod.splits)
      from Cons.IH[OF this] False show ?thesis by simp
    next
      case True
      obtain q1 c1 m1 where w: "qubit_execute_wrapper cb q (c, m) = (q1, c1, m1)"
        by (metis prod_cases3)
      with en True Cons.prems obtain qs2 where
        "dispatch_loop cb ok (Suc i) qs (c1, f, d + 1, m1) = (qs2, c', f', d', m')"
        by (auto split: prod.splits)
      from Cons.IH[OF this] en True show ?thesis by simp
    qed
  qed
qed

lemma count_dispatched_le: "count_dispatched ok i qs \<le> length qs"
  by (induction qs arbitrary: i) (auto simp: le_SucI)

lemma count_dispatched_pos:
  "0 < count_dispatched ok i qs \<longleftrightarrow> (\<exists>j<length qs. q_enabled (qs ! j) \<and> ok (i + j))"
proof (induction qs arbitrary: i)
  case Nil
  then show ?case by simp
next
  case (Cons q qs)
  have "(\<exists>j<length (q # qs). q_enabled ((q # qs) ! j) \<and> ok (i + j))
        \<longleftrightarrow> (q_enabled q \<and> ok i) \<or> (\<exists>j<length qs. q_enabled (qs ! j) \<and> ok (Suc i + j))"
    by (auto simp: less_Suc_eq_0_disj)
  with Cons.IH[of "Suc i"] show ?case by auto
qed

lemma dispatch_loop_disabled:
  "\<forall>q\<in>set qs. \<not> q_enabled q \<Longrightarrow>
     dispatch_loop cb ok i qs s = (map (\<lambda>q. q\<lparr> q_status := QUBIT_STATUS_SKIPPED \<rparr>) qs, s)"
proof (induction qs arbitrary: i)
  case Nil
  then show ?case by simp
next
  case (Cons q qs)
  obtain c f d m where s: "s = (c, f, d, m)" by (metis prod_cases4)
  from Cons show ?case by (simp add: s)
qed

lemma of_nat_32_pos:
  "n < 2 ^ 32 \<Longrightarrow> (0 < (of_nat n :: 32 word)) \<longleftrightarrow> 0 < n"
proof -
  assume n: "n < 2 ^ 32"
  have "(of_nat n :: 32 word) = 0 \<longleftrightarrow> n = 0"
  proof
    assume "(of_nat n :: 32 word) = 0"
    then have "2 ^ 32 dvd n" by (simp add: word_of_nat_eq_0_iff)
    with n show "n = 0" by (auto dest: dvd_imp_le)
  qed simp
  then show ?thesis by (simp add: word_greater_zero_iff)
qed

text \<open>
  Claim C10.  \<^verbatim>\<open>qarma_quantum_execute\<close> on a register that is already
  executing returns false at once and changes nothing.  Otherwise it returns
  true exactly when at least one qubit was handed to the wrapper, that is,
  when some qubit is enabled and its context could be allocated (the array
  has fewer than \<open>2 ^ 32\<close> qubits, its count being a \<^verbatim>\<open>uint32_t\<close>).  On a
  register whose qubits are all disabled it returns false, marks every qubit
  skipped, leaves both counters at zero and does not touch the memory.
\<close>

theorem execute_success_iff_dispatched:
  "(r_executing reg \<longrightarrow> qarma_quantum_execute cb ok reg m = (False, reg, m)) \<and>
   (\<not> r_executing reg \<and> length (r_qubits reg) < 2 ^ 32 \<longrightarrow>
      (fst (qarma_quantum_execute cb ok reg m)
         \<longleftrightarrow> (\<exists>j<length (r_qubits reg). q_enabled (r_qubits reg ! j) \<and> ok j))) \<and>
   (\<not> r_executing reg \<and> (\<forall>q\<in>set (r_qubits reg). \<not> q_enabled q) \<longrightarrow>
      (case qarma_quantum_execute cb ok reg m of
         (success, reg', m') \<Rightarrow>
           \<not> success \<and> (\<forall>q\<in>set (r_qubits reg'). q_status q = QUBIT_STATUS_SKIPPED)
           \<and> r_completed_count reg' = 0 \<and> r_failed_count reg' = 0 \<and> m' = m))"
proof (intro conjI impI)
  assume "r_executing reg"
  then show "qarma_quantum_execute cb ok reg m = (False, reg, m)"
    by (simp add: qarma_quantum_execute_def)
next
  assume a: "\<not> r_executing reg \<and> length (r_qubits reg) < 2 ^ 32"
  obtain qs' c' f' d' m' where
    d: "dispatch_loop cb ok 0 (r_qubits reg) (0, 0, 0, m) = (qs', c', f', d', m')"
    by (metis prod_cases5)
  from dispatch_loop_dispatched[OF d]
  have d': "d' = of_nat (count_dispatched ok 0 (r_qubits reg))" by simp
  have "count_dispatched ok 0 (r_qubits reg) < 2 ^ 32"
    using a count_dispatched_le[of ok 0 "r_qubits reg"] by simp
  then have "0 < d' \<longleftrightarrow> 0 < count_dispatched ok 0 (r_qubits reg)"
    unfolding d' by (rule of_nat_32_pos)
  also have "\<dots> \<longleftrightarrow> (\<exists>j<length (r_qubits reg). q_enabled (r_qubits reg ! j) \<and> ok j)"
    by (simp add: count_dispatched_pos)
  finally show "fst (qarma_quantum_execute cb ok reg m)
         \<longleftrightarrow> (\<exists>j<length (r_qubits reg). q_enabled (r_qubits reg ! j) \<and> ok j)"
    using a d by (simp add: qarma_quantum_execute_def)
next
  assume a: "\<not> r_executing reg \<and> (\<forall>q\<in>set (r_qubits reg). \<not> q_enabled q)"
  then show "case qarma_quantum_execute cb ok reg m of
         (success, reg', m') \<Rightarrow>
           \<not> success \<and> (\<forall>q\<in>set (r_qubits reg'). q_status q = QUBIT_STATUS_SKIPPED)
           \<and> r_completed_count reg' = 0 \<and> r_failed_count reg' = 0 \<and> m' = m"
    by (simp add: qarma_quantum_execute_def dispatch_loop_disabled)
qed



lemma fresh_is_create:
  "qarma_quantum_register_create True True 2 = Some fresh_register"
  by (simp add: qarma_quantum_register_create_def fresh_register_def zero_qubit_def upt_rec)

lemma configured_register_eq:
  "configured_register =
     fresh_register\<lparr> r_qubits :=
       [zero_qubit\<lparr> q_function := 0x400, q_data := 0x1000, q_enabled := True \<rparr>,
        zero_qubit\<lparr> q_id := 1 \<rparr>] \<rparr>"
  by (simp add: configured_register_def qarma_qubit_init_def fresh_register_def r_count_def
        zero_qubit_def Let_def)

theorem execute_success_iff_dispatched_witness:
  "qarma_quantum_execute idle_callbacks (\<lambda>i. True) (configured_register\<lparr> r_executing := True \<rparr>)
       sample_memory
     = (False, configured_register\<lparr> r_executing := True \<rparr>, sample_memory)
   \<and> fst (qarma_quantum_execute idle_callbacks (\<lambda>i. True) configured_register sample_memory)
   \<and> \<not> fst (qarma_quantum_execute idle_callbacks (\<lambda>i. True) fresh_register sample_memory)"
  using execute_success_iff_dispatched
          [of "configured_register\<lparr> r_executing := True \<rparr>" idle_callbacks "\<lambda>i. True" sample_memory]
        execute_success_iff_dispatched
          [of configured_register idle_callbacks "\<lambda>i. True" sample_memory]
        execute_success_iff_dispatched
          [of fresh_register idle_callbacks "\<lambda>i. True" sample_memory]
  by (auto simp: configured_register_eq fresh_register_def zero_qubit_def split: prod.splits)

subsection \<open>Waiting\<close>

lemma wait_returns_only_when_complete:
  "qarma_quantum_wait reg timeout_ms = Some b \<Longrightarrow> qarma_quantum_is_complete reg"
  by (rule qarma_quantum_wait.raw_induct
        [rotated 1, where P = "\<lambda>reg timeout_ms b. qarma_quantum_is_complete reg"])
     (auto split: if_splits)

lemma wait_spins: "\<not> qarma_quantum_is_complete reg \<Longrightarrow> qarma_quantum_wait reg timeout_ms = None"
  using wait_returns_only_when_complete by (cases "qarma_quantum_wait reg timeout_ms") auto

lemma wait_complete: "qarma_quantum_is_complete reg \<Longrightarrow> qarma_quantum_wait reg timeout_ms = Some True"
  by (subst qarma_quantum_wait.simps) simp

text \<open>
  Claim C1.  On a register with an enabled qubit that has not run, the
  register is not complete and \<^verbatim>\<open>qarma_quantum_wait(reg, 100)\<close> never
  returns: the timeout is ignored and the loop polls forever.
\<close>

theorem wait_ignores_timeout:
  "\<not> qarma_quantum_is_complete configured_register
   \<and> qarma_quantum_wait configured_register 100 = None"
proof -
  have "\<not> qarma_quantum_is_complete configured_register"
    by (simp add: qarma_quantum_is_complete_def enabled_count_def configured_register_eq
          fresh_register_def zero_qubit_def)
  then show ?thesis by (simp add: wait_spins)
qed

subsection \<open>Qubit initialisation\<close>

text \<open>
  Claim C6.  \<^verbatim>\<open>qarma_qubit_init(reg, 0, f, data, 4)\<close> on a new register,
  with the allocation of the result buffer failing, returns false but leaves
  qubit 0 enabled, with the function and data pointers of the call, although
  the qubit was disabled and had no function before.
\<close>

theorem qubit_init_failed_allocation:
  "qarma_qubit_init 0 fresh_register 0 0x400 0x1000 4 sample_memory
     = (False,
        fresh_register\<lparr> r_qubits :=
          [zero_qubit\<lparr> q_function := 0x400, q_data := 0x1000, q_enabled := True \<rparr>,
           zero_qubit\<lparr> q_id := 1 \<rparr>] \<rparr>,
        sample_memory)
   \<and> \<not> q_enabled (r_qubits fresh_register ! 0)
   \<and> q_function (r_qubits fresh_register ! 0) = 0"
  by (simp add: qarma_qubit_init_def qubit_allocate_result_def fresh_register_def r_count_def
        zero_qubit_def Let_def)

subsection \<open>Collapse\<close>

lemma length_read_bytes: "length (read_bytes m p n) = n"
  by (induction n arbitrary: p) auto

lemma nth_read_bytes: "i < n \<Longrightarrow> read_bytes m p n ! i = m (p + of_nat i)"
proof (induction n arbitrary: p i)
  case 0
  then show ?case by simp
next
  case (Suc n)
  show ?case
  proof (cases i)
    case 0
    then show ?thesis by simp
  next
    case (Suc j)
    with Suc.prems have "j < n" by simp
    from Suc.IH[OF this, of "p + 1"] Suc show ?thesis by (simp add: add.assoc)
  qed
qed

lemma read_bytes_4: "read_bytes m p 4 = [m p, m (p + 1), m (p + 2), m (p + 3)]"
proof -
  have e: "(4::nat) = Suc (Suc (Suc (Suc 0)))" by simp
  show ?thesis by (subst e) (simp add: add.assoc)
qed

lemma memcmp_zero_iff: "memcmp m a b n = 0 \<longleftrightarrow> read_bytes m a n = read_bytes m b n"
  by (induction n arbitrary: a b) auto

lemma validate_loop_iff:
  "validate_loop m r0 rs n \<longleftrightarrow> (\<forall>r\<in>set rs. read_bytes m r n = read_bytes m r0 n)"
  by (induction rs) (auto simp: memcmp_zero_iff)

lemma unat_of_nat_32: "i < 2 ^ 32 \<Longrightarrow> unat (of_nat i :: 32 word) = i"
  by (simp add: unat_of_nat)

lemma read_bytes_memcpy:
  assumes "n \<le> 2 ^ 32"
  shows "read_bytes (memcpy dst src n m) dst n = read_bytes m src n"
proof (rule nth_equalityI)
  show "length (read_bytes (memcpy dst src n m) dst n) = length (read_bytes m src n)"
    by (simp add: length_read_bytes)
next
  fix i assume "i < length (read_bytes (memcpy dst src n m) dst n)"
  then have i: "i < n" by (simp add: length_read_bytes)
  with assms have "unat (of_nat i :: 32 word) = i" by (simp add: unat_of_nat_32)
  with i show "read_bytes (memcpy dst src n m) dst n ! i = read_bytes m src n ! i"
    by (simp add: nth_read_bytes memcpy_def)
qed

lemma all_results_match_iff:
  assumes "results \<noteq> []"
  shows "(\<forall>i<length results. P (results ! i)) \<longleftrightarrow> P (results ! 0) \<and> (\<forall>r\<in>set (tl results). P r)"
proof -
  from assms obtain r rs where "results = r # rs" by (cases results) auto
  then show ?thesis by (auto simp: all_set_conv_all_nth less_Suc_eq_0_disj)
qed

text \<open>
  Claim C4.  For a non-empty result list, a size above zero and an output
  buffer that exists: when every result equals \<^verbatim>\<open>results[0]\<close> over
  \<open>sz\<close> bytes, \<^verbatim>\<open>qarma_collapse_validate\<close> copies \<^verbatim>\<open>results[0]\<close>, and
  the output buffer then holds those bytes; when some result differs, the
  memory, and so the output buffer, is exactly as before.
\<close>

theorem validate_copies_iff_all_match:
  assumes "results \<noteq> []" and "sz \<noteq> 0" and "out \<noteq> 0"
  shows "((\<forall>i<length results.
             read_bytes m (results ! i) (unat sz) = read_bytes m (results ! 0) (unat sz))
          \<longrightarrow> qarma_collapse_validate results out sz m
                = memcpy out (results ! 0) (unat sz) m
              \<and> read_bytes (qarma_collapse_validate results out sz m) out (unat sz)
                = read_bytes m (results ! 0) (unat sz))
       \<and> (\<not> (\<forall>i<length results.
                read_bytes m (results ! i) (unat sz) = read_bytes m (results ! 0) (unat sz))
          \<longrightarrow> qarma_collapse_validate results out sz m = m)"
proof -
  have iff: "validate_loop m (results ! 0) (tl results) (unat sz)
        \<longleftrightarrow> (\<forall>i<length results.
               read_bytes m (results ! i) (unat sz) = read_bytes m (results ! 0) (unat sz))"
    using all_results_match_iff[OF assms(1),
            of "\<lambda>r. read_bytes m r (unat sz) = read_bytes m (results ! 0) (unat sz)"]
    by (simp add: validate_loop_iff)
  have "unat sz < 2 ^ LENGTH(32)" by (rule unsigned_less)
  then have "unat sz \<le> 2 ^ 32" by simp
  then have copy: "read_bytes (memcpy out (results ! 0) (unat sz) m) out (unat sz)
        = read_bytes m (results ! 0) (unat sz)"
    by (rule read_bytes_memcpy)
  show ?thesis
    using assms copy unfolding iff[symmetric]
    by (simp add: qarma_collapse_validate_def)
qed

theorem validate_copies_iff_all_match_witness:
  "qarma_collapse_validate [0x2000, 0x3000] 0x5000 4 sample_memory
     = memcpy 0x5000 0x2000 4 sample_memory
   \<and> qarma_collapse_validate [0x1000, 0x2000] 0x5000 4 sample_memory = sample_memory"
  using validate_copies_iff_all_match
          [where results = "[0x2000, 0x3000]" and sz = 4 and out = "0x5000"
             and m = sample_memory]
        validate_copies_iff_all_match
          [where results = "[0x1000, 0x2000]" and sz = 4 and out = "0x5000"
             and m = sample_memory]
  by (simp add: sample_memory_def read_bytes_4 less_Suc_eq_0_disj)

lemma executed_register_eq:
  "executed_register =
     fresh_register\<lparr> r_qubits :=
       [zero_qubit\<lparr> q_function := 0x400, q_data := 0x1000, q_enabled := True,
                    q_status := QUBIT_STATUS_COMPLETED \<rparr>,
        zero_qubit\<lparr> q_id := 1, q_status := QUBIT_STATUS_SKIPPED \<rparr>],
       r_result_size := 4, r_completed_count := 1 \<rparr>"
  by (simp add: executed_register_def qarma_quantum_execute_def configured_register_eq
        fresh_register_def zero_qubit_def qubit_execute_wrapper_def idle_callbacks_def Let_def)

lemma read_bytes_store_pointer:
  "read_bytes (store_pointer p v m) p 4 = pointer_bytes v"
  by (simp add: read_bytes_4 store_pointer_def pointer_bytes_def)

lemma first_wins_run_eq:
  "first_wins_run =
     (0x2000, executed_register\<lparr> r_collapse_output := 0x2000, r_collapsed := True \<rparr>,
      store_pointer 0x2000 0x1000 (memset 0x2000 0 4 sample_memory))"
  by (simp add: first_wins_run_def qarma_quantum_collapse_def executed_register_eq
        fresh_register_def zero_qubit_def gather_results_def apply_strategy_def
        qarma_collapse_first_wins_def Let_def)

text \<open>
  Claim C5 as stated fails.  One completed qubit whose data, the bytes
  1, 2, 3, 4, lies at \<open>0x1000\<close>; result size 4; output buffer allocated at
  \<open>0x2000\<close>.  After the collapse the output buffer holds the bytes of the
  address \<open>0x00001000\<close>, not the bytes of the result.
\<close>

theorem first_wins_copies_counterexample:
  "fst first_wins_run = 0x2000
   \<and> gather_results (r_qubits executed_register) = [0x1000]
   \<and> read_bytes (snd (snd first_wins_run)) 0x2000 4 = [0x00, 0x10, 0x00, 0x00]
   \<and> read_bytes (snd (snd first_wins_run)) 0x1000 4 = [1, 2, 3, 4]
   \<and> read_bytes (snd (snd first_wins_run)) 0x2000 4
       \<noteq> read_bytes (snd (snd first_wins_run)) 0x1000 4"
  by (simp add: first_wins_run_eq executed_register_eq fresh_register_def zero_qubit_def
        gather_results_def read_bytes_4 store_pointer_def memset_def sample_memory_def)

text \<open>
  Claim C5, amended.  For a register that is not yet collapsed, with strategy
  \<^verbatim>\<open>COLLAPSE_FIRST_WINS\<close>, a non-empty gathered result list and an output
  buffer (already set, or allocated now because the result size is above
  zero), \<^verbatim>\<open>qarma_quantum_collapse\<close> returns the output buffer, and the
  first four bytes of the buffer hold the address of the first gathered
  result, least significant byte first.
\<close>

theorem first_wins_stores_pointer:
  assumes "r_strategy reg = COLLAPSE_FIRST_WINS" and "\<not> r_collapsed reg" and "results_ok"
    and "gather_results (r_qubits reg) \<noteq> []"
    and "r_collapse_output reg \<noteq> 0 \<or> (0 < r_result_size reg \<and> out \<noteq> 0)"
  shows "case qarma_quantum_collapse cb results_ok out reg m of
           (p, reg', m') \<Rightarrow>
             p \<noteq> 0 \<and> r_collapse_output reg' = p \<and> r_collapsed reg'
             \<and> read_bytes m' p 4 = pointer_bytes (gather_results (r_qubits reg) ! 0)"
  using assms
  by (auto simp: qarma_quantum_collapse_def apply_strategy_def qarma_collapse_first_wins_def
        Let_def read_bytes_store_pointer)

theorem first_wins_stores_pointer_witness:
  "fst first_wins_run \<noteq> 0
   \<and> read_bytes (snd (snd first_wins_run)) (fst first_wins_run) 4 = pointer_bytes 0x1000"
proof -
  have g: "gather_results (r_qubits executed_register) = [0x1000]"
    by (simp add: executed_register_eq fresh_register_def zero_qubit_def gather_results_def)
  have "case first_wins_run of
          (p, reg', m') \<Rightarrow>
            p \<noteq> 0 \<and> r_collapse_output reg' = p \<and> r_collapsed reg'
            \<and> read_bytes m' p 4 = pointer_bytes (gather_results (r_qubits executed_register) ! 0)"
    unfolding first_wins_run_def
    by (rule first_wins_stores_pointer)
       (simp_all add: g, simp_all add: executed_register_eq fresh_register_def)
  then show ?thesis by (simp add: g case_prod_beta)
qed

text \<open>
  Claim C3.  When the allocations of a call of \<^verbatim>\<open>qarma_quantum_collapse\<close>
  succeed, the register is collapsed afterwards.  On a register left
  collapsed by one call, a second call returns the same pointer and leaves
  the register and the whole memory as they were, whatever its allocations
  would do; the flag stays true.
\<close>

theorem collapse_idempotent:
  assumes "qarma_quantum_collapse cb ok out reg m = (p, reg', m')"
  shows "(ok \<and> out \<noteq> 0 \<longrightarrow> r_collapsed reg')
       \<and> (r_collapsed reg' \<longrightarrow>
            qarma_quantum_collapse cb again_ok again_out reg' m' = (p, reg', m')
            \<and> r_collapsed (fst (snd (qarma_quantum_collapse cb again_ok again_out reg' m'))))"
  using assms
  by (auto simp: qarma_quantum_collapse_def Let_def split: if_splits)

theorem collapse_idempotent_witness:
  "r_collapsed (fst (snd first_wins_run))
   \<and> qarma_quantum_collapse idle_callbacks False 0 (fst (snd first_wins_run))
        (snd (snd first_wins_run)) = first_wins_run"
  using collapse_idempotent
          [where cb = idle_callbacks and ok = True and out = "0x2000"
             and reg = executed_register and m = sample_memory
             and p = "fst first_wins_run" and reg' = "fst (snd first_wins_run)"
             and m' = "snd (snd first_wins_run)" and again_ok = False and again_out = 0]
  by (simp add: first_wins_run_def [symmetric])

subsection \<open>Predictive scheduler\<close>

lemma sized_register_eq:
  "sized_register =
     fresh_register\<lparr> r_qubits :=
       [zero_qubit\<lparr> q_function := 0x400, q_data := 0x1000, q_enabled := True,
                    q_result := 0x3000, q_result_size := 8 \<rparr>,
        zero_qubit\<lparr> q_id := 1 \<rparr>] \<rparr>"
  by (simp add: sized_register_def qarma_qubit_init_def qubit_allocate_result_def
        fresh_register_def r_count_def zero_qubit_def Let_def)

lemma lookup_learned_time_find:
  "lookup_learned_time ps sz =
     (case find (\<lambda>p. lp_data_size p = sz) ps of None \<Rightarrow> 0 | Some p \<Rightarrow> lp_avg_time_ms p)"
  by (induction ps) auto

lemma predictions_nth:
  assumes "i < length (r_qubits reg)"
  shows "sc_predictions (quantum_scheduler_predict True sched reg) = Some preds \<Longrightarrow>
         preds ! i = predict_qubit (sc_learned_patterns sched) i (r_qubits reg ! i)"
  using assms by (auto simp: quantum_scheduler_predict_def)

text \<open>
  Claim C9 as stated fails.  With an empty pattern table, a qubit of result
  size 8 gets the complexity score 80 but the predicted time 1, not 80.
\<close>

theorem predict_heuristic_counterexample:
  "q_result_size (r_qubits sized_register ! 0) = 8
   \<and> sc_learned_patterns initial_scheduler = []
   \<and> quantum_scheduler_get_prediction
        (quantum_scheduler_predict True initial_scheduler sized_register) 0
       = Some \<lparr> pr_qubit_index = 0, pr_predicted_time_ms = 1, pr_confidence = 3 / 10,
                pr_complexity_score = 80 \<rparr>
   \<and> (1 :: 32 word) \<noteq> q_result_size (r_qubits sized_register ! 0) * 10"
  by (simp add: sized_register_eq fresh_register_def zero_qubit_def initial_scheduler_def
        quantum_scheduler_predict_def quantum_scheduler_get_prediction_def r_count_def
        predict_qubit_def estimate_complexity_def upt_rec Let_def)

text \<open>
  Claim C9, amended.  When the prediction array can be allocated, every
  qubit gets the complexity score \<^verbatim>\<open>result_size * 10\<close> (in 32 bits).  If no
  pattern has its result size, or the first such pattern has the average
  time 0, the predicted time is the complexity score divided by 100, but at
  least 1, and the confidence is 0.3.  Otherwise the predicted time is the
  average time of the first pattern with its result size, and the confidence
  is 0.8.
\<close>

theorem predict_times:
  assumes "i < length (r_qubits reg)"
    and "sc_predictions (quantum_scheduler_predict True sched reg) = Some preds"
  shows "pr_complexity_score (preds ! i) = q_result_size (r_qubits reg ! i) * 10
       \<and> (case find (\<lambda>p. lp_data_size p = q_result_size (r_qubits reg ! i))
                  (sc_learned_patterns sched) of
            None \<Rightarrow>
              pr_predicted_time_ms (preds ! i) = max 1 (q_result_size (r_qubits reg ! i) * 10 div 100)
              \<and> pr_confidence (preds ! i) = 3 / 10
          | Some p \<Rightarrow>
              if lp_avg_time_ms p = 0 then
                pr_predicted_time_ms (preds ! i)
                  = max 1 (q_result_size (r_qubits reg ! i) * 10 div 100)
                \<and> pr_confidence (preds ! i) = 3 / 10
              else
                pr_predicted_time_ms (preds ! i) = lp_avg_time_ms p
                \<and> pr_confidence (preds ! i) = 8 / 10)"
proof -
  have "1 \<le> t \<longleftrightarrow> t \<noteq> 0" for t :: "32 word"
    using word_less_1[of t] by (simp only: not_le[symmetric]) blast
  then have mx: "max 1 t = (if t = 0 then 1 else t)" for t :: "32 word"
    by (simp add: max_def)
  show ?thesis
    unfolding predictions_nth[OF assms]
    by (simp add: predict_qubit_def estimate_complexity_def lookup_learned_time_find Let_def
          word_greater_zero_iff mx split: option.splits)
qed

theorem predict_times_witness:
  "the (sc_predictions (quantum_scheduler_predict True initial_scheduler sized_register)) ! 0
     = \<lparr> pr_qubit_index = 0, pr_predicted_time_ms = 1, pr_confidence = 3 / 10,
         pr_complexity_score = 80 \<rparr>
   \<and> pr_predicted_time_ms
        (the (sc_predictions (quantum_scheduler_predict True
                (initial_scheduler\<lparr> sc_learned_patterns :=
                   [\<lparr> lp_data_size = 8, lp_avg_time_ms = 25, lp_sample_count = 2 \<rparr>] \<rparr>)
                sized_register)) ! 0) = 25"
  using predict_times
          [where i = 0 and reg = sized_register and sched = initial_scheduler
             and preds = "the (sc_predictions
                                (quantum_scheduler_predict True initial_scheduler sized_register))"]
        predict_times
          [where i = 0 and reg = sized_register
             and sched = "initial_scheduler\<lparr> sc_learned_patterns :=
                   [\<lparr> lp_data_size = 8, lp_avg_time_ms = 25, lp_sample_count = 2 \<rparr>] \<rparr>"
             and preds = "the (sc_predictions
                                (quantum_scheduler_predict True
                (initial_scheduler\<lparr> sc_learned_patterns :=
                   [\<lparr> lp_data_size = 8, lp_avg_time_ms = 25, lp_sample_count = 2 \<rparr>] \<rparr>) sized_register))"]
  by (simp add: sized_register_eq fresh_register_def zero_qubit_def initial_scheduler_def
        quantum_scheduler_predict_def r_count_def
        predict_qubit_def estimate_complexity_def upt_rec Let_def)

subsection \<open>AI observer\<close>

lemma profile_executed_register:
  "quantum_ai_profile_register executed_register = executed_profile"
  by (simp add: quantum_ai_profile_register_def executed_register_eq fresh_register_def
        zero_qubit_def r_count_def qubit_duration_def executed_profile_def Let_def)

lemma executed_profile_self_similar:
  "profile_similarity executed_profile executed_profile = 1"
  by (simp add: profile_similarity_def executed_profile_def Let_def)

lemma best_match_loop_bound:
  "best_match_loop profile es k (b, s) = (Some i, s') \<Longrightarrow>
     b = Some i \<or> (k \<le> i \<and> i < k + length es)"
proof (induction es arbitrary: k b s)
  case Nil
  then show ?case by simp
next
  case (Cons e es)
  show ?case
  proof (cases "s < profile_similarity profile (le_profile e)")
    case True
    with Cons.prems have
      "best_match_loop profile es (Suc k) (Some k, profile_similarity profile (le_profile e))
         = (Some i, s')"
      by (simp add: Let_def)
    from Cons.IH[OF this] show ?thesis by auto
  next
    case False
    with Cons.prems have "best_match_loop profile es (Suc k) (b, s) = (Some i, s')"
      by (simp add: Let_def)
    from Cons.IH[OF this] show ?thesis by auto
  qed
qed

lemma find_or_create_entry_index:
  assumes "find_or_create_entry db_ok ob profile = (Some i, ob1)"
  shows "i < length (ob_learning_db ob1)"
proof -
  obtain b s where bm: "best_match_loop profile (ob_learning_db ob) 0 (None, 0) = (b, s)"
    by (cases "best_match_loop profile (ob_learning_db ob) 0 (None, 0)")
  show ?thesis
  proof (cases "b \<noteq> None \<and> PROFILE_MATCH_THRESHOLD \<le> s")
    case True
    with assms bm have "b = Some i" and "ob1 = ob"
      by (auto simp: find_or_create_entry_def)
    with bm best_match_loop_bound[of profile "ob_learning_db ob" 0 None 0 i s]
    show ?thesis by simp
  next
    case False
    with assms bm show ?thesis
      by (auto simp: find_or_create_entry_def Let_def split: if_splits)
  qed
qed

lemma observe_first:
  "\<exists>e. ob_learning_db (quantum_ai_observe_complete True quantum_ai_init executed_register t q) = [e]
        \<and> le_profile e = executed_profile
        \<and> le_observation_count e = 1
        \<and> le_confidence e = confidence_ramp 1
        \<and> ob_enabled (quantum_ai_observe_complete True quantum_ai_init executed_register t q)"
proof -
  have "find_or_create_entry True quantum_ai_init executed_profile
          = (Some 0, quantum_ai_init\<lparr> ob_db_capacity := 32,
               ob_learning_db := [\<lparr> le_profile = executed_profile, le_metrics = (\<lambda>s. zero_metrics),
                          le_observation_count = 0, le_confidence = 0 \<rparr>] \<rparr>)"
    by (simp add: find_or_create_entry_def quantum_ai_init_def ob_db_size_def
          INITIAL_DB_CAPACITY_def Let_def)
  then show ?thesis
    by (simp add: quantum_ai_observe_complete_def profile_executed_register
          quantum_ai_init_def confidence_ramp_def Let_def)
qed

lemma find_single_entry:
  assumes "ob_learning_db ob = [e]" and "le_profile e = executed_profile"
  shows "find_or_create_entry db_ok ob executed_profile = (Some 0, ob)"
proof -
  have bm: "best_match_loop executed_profile [e] 0 (None, 0) = (Some 0, 1)"
    by (simp add: assms executed_profile_self_similar)
  show ?thesis
    unfolding find_or_create_entry_def assms(1) bm
    by (simp add: PROFILE_MATCH_THRESHOLD_def)
qed

lemma observe_again:
  assumes "ob_learning_db ob = [e]" and "le_profile e = executed_profile" and "ob_enabled ob"
  shows "\<exists>e'. ob_learning_db (quantum_ai_observe_complete True ob executed_register t q) = [e']
        \<and> le_profile e' = executed_profile
        \<and> le_observation_count e' = le_observation_count e + 1
        \<and> le_confidence e' = confidence_ramp (le_observation_count e + 1)
        \<and> ob_enabled (quantum_ai_observe_complete True ob executed_register t q)"
  using find_single_entry[OF assms(1,2), of True]
  by (simp add: quantum_ai_observe_complete_def profile_executed_register assms
        confidence_ramp_def Let_def)

lemma observe_times_entry:
  "\<exists>e. ob_learning_db (observe_times (Suc n)) = [e]
           \<and> le_profile e = executed_profile
           \<and> le_observation_count e = of_nat (Suc n)
           \<and> le_confidence e = confidence_ramp (of_nat (Suc n))
           \<and> ob_enabled (observe_times (Suc n))"
proof (induction n)
  case 0
  have eq: "observe_times (Suc 0)
              = quantum_ai_observe_complete True quantum_ai_init executed_register 5 1"
    by simp
  have one: "(of_nat (Suc 0) :: 32 word) = 1" by simp
  show ?case unfolding eq one by (rule observe_first)
next
  case (Suc n)
  then obtain e where e: "ob_learning_db (observe_times (Suc n)) = [e]"
      "le_profile e = executed_profile" "le_observation_count e = of_nat (Suc n)"
      "ob_enabled (observe_times (Suc n))"
    by blast
  have eq: "observe_times (Suc (Suc n))
          = quantum_ai_observe_complete True (observe_times (Suc n)) executed_register 5 1"
    by simp
  have cnt: "(of_nat (Suc (Suc n)) :: 32 word) = of_nat (Suc n) + 1" by simp
  show ?case
    unfolding eq cnt using observe_again[OF e(1,2,4), of 5 1] unfolding e(3) .
qed

text \<open>
  Claim C2 as stated fails.  After ten observations of the same register,
  starting from an empty database, the one learning entry has the
  observation count 10 and the confidence 0.9, not \<open>min 1 (10 / 10) = 1\<close>.
\<close>

theorem confidence_tenth_observation_counterexample:
  "le_observation_count (ob_learning_db (observe_times 10) ! 0) = 10
   \<and> le_confidence (ob_learning_db (observe_times 10) ! 0) = 9 / 10
   \<and> le_confidence (ob_learning_db (observe_times 10) ! 0) \<noteq> min 1 (10 / 10)"
proof -
  have s: "Suc 9 = 10" by simp
  have t: "(of_nat 10 :: 32 word) = 10" by simp
  note ex = observe_times_entry[of 9, unfolded s t]
  then obtain e where
    "ob_learning_db (observe_times 10) = [e]" "le_observation_count e = 10"
    "le_confidence e = confidence_ramp 10"
    by blast
  then show ?thesis by (simp add: confidence_ramp_def)
qed

text \<open>
  Claim C2, amended.  When the observer is enabled and an entry is found or
  created, \<^verbatim>\<open>quantum_ai_observe_complete\<close> adds one to the observation
  count of that entry and sets its confidence to \<open>n / 10\<close> while the new
  count \<open>n\<close> is below 10, and to \<open>1 - 1 / n\<close> from the tenth observation
  on; at the tenth observation the confidence is 0.9.
\<close>

theorem confidence_after_observation:
  assumes "ob_enabled ob"
    and "find_or_create_entry db_ok ob (quantum_ai_profile_register reg) = (Some i, ob1)"
  shows "le_observation_count
           (ob_learning_db (quantum_ai_observe_complete db_ok ob reg elapsed_ms quality) ! i)
         = le_observation_count (ob_learning_db ob1 ! i) + 1
       \<and> le_confidence
           (ob_learning_db (quantum_ai_observe_complete db_ok ob reg elapsed_ms quality) ! i)
         = (let n = le_observation_count (ob_learning_db ob1 ! i) + 1
            in if 10 \<le> n then 1 - 1 / real (unat n) else real (unat n) / 10)
       \<and> (le_observation_count (ob_learning_db ob1 ! i) + 1 = 10 \<longrightarrow>
            le_confidence
              (ob_learning_db (quantum_ai_observe_complete db_ok ob reg elapsed_ms quality) ! i)
            = 9 / 10)"
  using assms find_or_create_entry_index[OF assms(2)]
  by (simp add: quantum_ai_observe_complete_def Let_def)

theorem confidence_after_observation_witness:
  "ob_enabled (observe_times 9)
   \<and> find_or_create_entry True (observe_times 9) (quantum_ai_profile_register executed_register)
       = (Some 0, observe_times 9)
   \<and> le_observation_count (ob_learning_db (observe_times 9) ! 0) + 1 = 10
   \<and> le_confidence
        (ob_learning_db
           (quantum_ai_observe_complete True (observe_times 9) executed_register 5 1) ! 0)
       = 9 / 10"
proof -
  have s: "Suc 8 = 9" by simp
  have t: "(of_nat 9 :: 32 word) = 9" by simp
  note ex = observe_times_entry[of 8, unfolded s t]
  then obtain e where e: "ob_learning_db (observe_times 9) = [e]"
      "le_profile e = executed_profile" "le_observation_count e = 9"
      "ob_enabled (observe_times 9)"
    by blast
  have f: "find_or_create_entry True (observe_times 9)
             (quantum_ai_profile_register executed_register) = (Some 0, observe_times 9)"
    unfolding profile_executed_register by (rule find_single_entry[OF e(1,2)])
  have n: "le_observation_count (ob_learning_db (observe_times 9) ! 0) + 1 = 10"
    by (simp add: e)
  from confidence_after_observation[OF e(4) f, of 5 1] n e(4) f show ?thesis by simp
qed

subsection \<open>Adaptive controller\<close>









subsection \<open>Qubit status\<close>

lemma status_forward_refl: "status_forward s s"
  by simp

lemma status_forward_trans:
  "status_forward a b \<Longrightarrow> status_forward b c \<Longrightarrow> status_forward a c"
  by (cases a; cases b; cases c) auto

lemma index_in_range:
  "\<not> r_count reg \<le> index \<Longrightarrow> unat index < length (r_qubits reg)"
proof -
  assume "\<not> r_count reg \<le> index"
  then have "unat index < unat (of_nat (length (r_qubits reg)) :: 32 word)"
    by (simp add: r_count_def word_less_nat_alt not_le)
  also have "\<dots> \<le> length (r_qubits reg)"
    by (simp add: unat_of_nat)
  finally show ?thesis .
qed

lemma dispatch_loop_status:
  "dispatch_loop cb ok i qs s = (qs', s') \<Longrightarrow>
     length qs' = length qs \<and>
     (\<forall>j<length qs. q_status (qs' ! j) =
        (if \<not> q_enabled (qs ! j) then QUBIT_STATUS_SKIPPED
         else if \<not> ok (i + j) then QUBIT_STATUS_FAILED
         else if q_function (qs ! j) = 0 then q_status (qs ! j)
         else QUBIT_STATUS_COMPLETED))"
proof (induction qs arbitrary: i s qs' s')
  case Nil
  then show ?case by simp
next
  case (Cons q qs)
  obtain c f d m where s: "s = (c, f, d, m)" by (metis prod_cases4)
  obtain q1 c1 m1 where w: "qubit_execute_wrapper cb q (c, m) = (q1, c1, m1)"
    by (metis prod_cases3)
  define s1 where "s1 = (if \<not> q_enabled q then (c, f, d, m)
                         else if \<not> ok i then (c, f + 1, d, m) else (c1, f, d + 1, m1))"
  define q' where "q' = (if \<not> q_enabled q then q\<lparr> q_status := QUBIT_STATUS_SKIPPED \<rparr>
                         else if \<not> ok i then q\<lparr> q_status := QUBIT_STATUS_FAILED \<rparr> else q1)"
  obtain qs2 s2 where r: "dispatch_loop cb ok (Suc i) qs s1 = (qs2, s2)"
    by (cases "dispatch_loop cb ok (Suc i) qs s1")
  from Cons.prems s w r have qs': "qs' = q' # qs2"
    by (auto simp: s1_def q'_def split: if_splits)
  have hd: "q_status q' =
        (if \<not> q_enabled q then QUBIT_STATUS_SKIPPED
         else if \<not> ok i then QUBIT_STATUS_FAILED
         else if q_function q = 0 then q_status q
         else QUBIT_STATUS_COMPLETED)"
    using w by (auto simp: q'_def qubit_execute_wrapper_def Let_def split: if_splits)
  from Cons.IH[OF r] have tl: "length qs2 = length qs"
    "\<forall>j<length qs. q_status (qs2 ! j) =
        (if \<not> q_enabled (qs ! j) then QUBIT_STATUS_SKIPPED
         else if \<not> ok (Suc i + j) then QUBIT_STATUS_FAILED
         else if q_function (qs ! j) = 0 then q_status (qs ! j)
         else QUBIT_STATUS_COMPLETED)"
    by auto
  show ?case
  proof (intro conjI allI impI)
    show "length qs' = length (q # qs)" using qs' tl(1) by simp
  next
    fix j assume "j < length (q # qs)"
    then show "q_status (qs' ! j) =
        (if \<not> q_enabled ((q # qs) ! j) then QUBIT_STATUS_SKIPPED
         else if \<not> ok (i + j) then QUBIT_STATUS_FAILED
         else if q_function ((q # qs) ! j) = 0 then q_status ((q # qs) ! j)
         else QUBIT_STATUS_COMPLETED)"
      using qs' hd tl(2) by (cases j) auto
  qed
qed

lemma apply_op_forward:
  assumes "op_on_pending op reg"
  shows "length (r_qubits (fst (apply_op cb op (reg, m)))) = length (r_qubits reg)
       \<and> (\<forall>i<length (r_qubits reg).
            status_forward (q_status (r_qubits reg ! i))
              (q_status (r_qubits (fst (apply_op cb op (reg, m))) ! i)))"
proof (cases op)
  case (Init_qubit p index fn dat sz)
  show ?thesis
  proof (cases "r_count reg \<le> index \<or> fn = 0")
    case True
    then show ?thesis by (simp add: Init_qubit qarma_qubit_init_def)
  next
    case False
    then have r: "unat index < length (r_qubits reg)" by (simp add: index_in_range)
    with assms Init_qubit have p: "q_status (r_qubits reg ! unat index) = QUBIT_STATUS_PENDING"
      by simp
    from False r p show ?thesis
      by (auto simp: Init_qubit qarma_qubit_init_def qubit_allocate_result_def Let_def
            nth_list_update)
  qed
next
  case (Set_enabled index enabled)
  show ?thesis
  proof (cases "r_count reg \<le> index")
    case True
    then show ?thesis by (simp add: Set_enabled qarma_qubit_set_enabled_def)
  next
    case False
    then have r: "unat index < length (r_qubits reg)" by (simp add: index_in_range)
    from False r assms show ?thesis
      by (auto simp: Set_enabled qarma_qubit_set_enabled_def Let_def nth_list_update)
  qed
next
  case (Execute ctx_ok)
  show ?thesis
  proof (cases "r_executing reg")
    case True
    then show ?thesis by (simp add: Execute qarma_quantum_execute_def)
  next
    case False
    obtain qs' s' where d: "dispatch_loop cb ctx_ok 0 (r_qubits reg) (0, 0, 0, m) = (qs', s')"
      by (cases "dispatch_loop cb ctx_ok 0 (r_qubits reg) (0, 0, 0, m)")
    obtain c f dd m' where s': "s' = (c, f, dd, m')" by (metis prod_cases4)
    from dispatch_loop_status[OF d] have st: "length qs' = length (r_qubits reg)"
      "\<And>j. j < length (r_qubits reg) \<Longrightarrow> q_status (qs' ! j) =
        (if \<not> q_enabled (r_qubits reg ! j) then QUBIT_STATUS_SKIPPED
         else if \<not> ctx_ok j then QUBIT_STATUS_FAILED
         else if q_function (r_qubits reg ! j) = 0 then q_status (r_qubits reg ! j)
         else QUBIT_STATUS_COMPLETED)"
      by auto
    have res: "r_qubits (fst (apply_op cb op (reg, m))) = qs'"
      using False d s' by (simp add: Execute qarma_quantum_execute_def)
    have "status_forward (q_status (r_qubits reg ! i)) (q_status (qs' ! i))"
      if i: "i < length (r_qubits reg)" for i
    proof -
      from i have "r_qubits reg ! i \<in> set (r_qubits reg)" by simp
      with assms Execute have
        "q_status (r_qubits reg ! i) = QUBIT_STATUS_PENDING
         \<or> (\<not> q_enabled (r_qubits reg ! i) \<and> q_status (r_qubits reg ! i) = QUBIT_STATUS_SKIPPED)"
        by auto
      with st(2)[OF i] show ?thesis by auto
    qed
    with st(1) res show ?thesis by simp
  qed
next
  case (Collapse results_ok out)
  have "r_qubits (fst (snd (qarma_quantum_collapse cb results_ok out reg m))) = r_qubits reg"
    by (simp add: qarma_quantum_collapse_def Let_def)
  then show ?thesis by (simp add: Collapse)
qed

lemma run_ops_append: "run_ops cb (ops1 @ ops2) s = run_ops cb ops2 (run_ops cb ops1 s)"
  by (induction ops1 arbitrary: s) auto

lemma ops_on_pending_append:
  "ops_on_pending cb (ops1 @ ops2) s \<longleftrightarrow>
     ops_on_pending cb ops1 s \<and> ops_on_pending cb ops2 (run_ops cb ops1 s)"
  by (induction ops1 arbitrary: s) auto

lemma run_ops_forward:
  assumes "ops_on_pending cb ops s"
  shows "length (r_qubits (fst (run_ops cb ops s))) = length (r_qubits (fst s))
       \<and> (\<forall>i<length (r_qubits (fst s)).
            status_forward (qubit_status s i) (qubit_status (run_ops cb ops s) i))"
  using assms
proof (induction ops arbitrary: s)
  case Nil
  then show ?case by (simp add: qubit_status_def)
next
  case (Cons op ops)
  obtain reg m where s: "s = (reg, m)" by (cases s)
  from Cons.prems s have g: "op_on_pending op reg"
    and rest: "ops_on_pending cb ops (apply_op cb op (reg, m))"
    by auto
  note step = apply_op_forward[OF g, of cb m]
  note ih = Cons.IH[OF rest]
  show ?case
  proof (intro conjI allI impI)
    show "length (r_qubits (fst (run_ops cb (op # ops) s))) = length (r_qubits (fst s))"
      using step ih s by simp
  next
    fix i assume i: "i < length (r_qubits (fst s))"
    with s step have a: "status_forward (qubit_status s i)
        (qubit_status (apply_op cb op (reg, m)) i)"
      by (simp add: qubit_status_def)
    from i s step ih have b: "status_forward (qubit_status (apply_op cb op (reg, m)) i)
        (qubit_status (run_ops cb ops (apply_op cb op (reg, m))) i)"
      by simp
    from status_forward_trans[OF a b] s
    show "status_forward (qubit_status s i) (qubit_status (run_ops cb (op # ops) s) i)"
      by simp
  qed
qed

text \<open>
  Claim C7 as stated fails.  Qubit 0 is completed after init and execute; a
  second \<^verbatim>\<open>qarma_qubit_init\<close> on it sets it back to pending.
\<close>

theorem status_regresses_counterexample:
  "qubit_status (run_ops idle_callbacks
       [Init_qubit 0 0 0x400 0x1000 0, Execute (\<lambda>i. True)]
       (fresh_register, sample_memory)) 0 = QUBIT_STATUS_COMPLETED
   \<and> qubit_status (run_ops idle_callbacks
       [Init_qubit 0 0 0x400 0x1000 0, Execute (\<lambda>i. True), Init_qubit 0 0 0x400 0x1000 0]
       (fresh_register, sample_memory)) 0 = QUBIT_STATUS_PENDING
   \<and> \<not> status_forward QUBIT_STATUS_COMPLETED QUBIT_STATUS_PENDING"
  by (simp add: qubit_status_def qarma_qubit_init_def qarma_quantum_execute_def
        fresh_register_def zero_qubit_def r_count_def qubit_execute_wrapper_def
        idle_callbacks_def Let_def)

text \<open>
  Claim C7, amended.  In a run of init, set_enabled, execute and collapse in
  which init meets its qubit pending, disabling meets it pending or skipped,
  and execute meets every qubit pending (or disabled and skipped), the
  status of each qubit at any point of the run is the status at any earlier
  point or lies ahead of it.
\<close>

theorem status_moves_forward:
  assumes "ops_on_pending cb (ops1 @ ops2) s" and "i < length (r_qubits (fst s))"
  shows "status_forward (qubit_status (run_ops cb ops1 s) i)
           (qubit_status (run_ops cb (ops1 @ ops2) s) i)"
proof -
  from assms(1) have a: "ops_on_pending cb ops1 s"
    and b: "ops_on_pending cb ops2 (run_ops cb ops1 s)"
    by (simp_all add: ops_on_pending_append)
  from run_ops_forward[OF a] assms(2)
  have "i < length (r_qubits (fst (run_ops cb ops1 s)))" by simp
  with run_ops_forward[OF b] show ?thesis by (simp add: run_ops_append)
qed

theorem status_moves_forward_witness:
  "ops_on_pending idle_callbacks sample_ops (fresh_register, sample_memory)
   \<and> qubit_status (run_ops idle_callbacks (take 2 sample_ops) (fresh_register, sample_memory)) 0
       = QUBIT_STATUS_PENDING
   \<and> qubit_status (run_ops idle_callbacks sample_ops (fresh_register, sample_memory)) 0
       = QUBIT_STATUS_COMPLETED
   \<and> status_forward
        (qubit_status (run_ops idle_callbacks (take 2 sample_ops)
           (fresh_register, sample_memory)) 0)
        (qubit_status (run_ops idle_callbacks sample_ops (fresh_register, sample_memory)) 0)"
proof -
  have g: "ops_on_pending idle_callbacks (take 2 sample_ops @ drop 2 sample_ops)
             (fresh_register, sample_memory)"
    by (simp add: sample_ops_def qarma_qubit_init_def qarma_qubit_set_enabled_def
          qarma_quantum_execute_def fresh_register_def zero_qubit_def r_count_def
          qubit_execute_wrapper_def idle_callbacks_def Let_def)
  have i: "0 < length (r_qubits (fst (fresh_register, sample_memory)))"
    by (simp add: fresh_register_def)
  have p: "qubit_status (run_ops idle_callbacks (take 2 sample_ops)
             (fresh_register, sample_memory)) 0 = QUBIT_STATUS_PENDING"
    by (simp add: sample_ops_def qubit_status_def qarma_qubit_init_def
          qarma_qubit_set_enabled_def fresh_register_def zero_qubit_def r_count_def Let_def)
  have c: "qubit_status (run_ops idle_callbacks sample_ops (fresh_register, sample_memory)) 0
             = QUBIT_STATUS_COMPLETED"
    by (simp add: sample_ops_def qubit_status_def qarma_qubit_init_def
          qarma_qubit_set_enabled_def qarma_quantum_execute_def qarma_quantum_collapse_def
          fresh_register_def zero_qubit_def r_count_def qubit_execute_wrapper_def
          idle_callbacks_def Let_def)
  from status_moves_forward[OF g i] g p c show ?thesis by simp
qed

end
